theory Spec2Isabelle
  imports Complex_Main "HOL-Library.Word"
begin

unbundle bit_operations_syntax

section \<open>Python values, results and effects\<close>

text \<open>
  A Python \<open>str\<close> is a sequence of Unicode code points, a \<open>bytes\<close> object a sequence
  of 8-bit characters. The two are kept apart: what the program computes with is
  \<open>pystr\<close>, what a file holds is a \<open>string\<close> of bytes, and the text layer of a file
  (encoding, newline translation) stands between them. \<open>str\<close> turns a literal of the
  source into a \<open>pystr\<close>.
\<close>

type_synonym pystr = "nat list"

definition str :: "string \<Rightarrow> pystr" where
  "str t = map of_char t"

text \<open>
  The values \<open>json.loads\<close> produces: \<open>None\<close>, booleans, numbers, strings, lists and
  dictionaries. A number stands for a Python \<open>int\<close> or \<open>float\<close>: the program only
  tests a number for being zero and never subscripts it with success. A dictionary is
  the list of its items; JSON keys are always strings.
\<close>

datatype json =
    JNull
  | JBool bool
  | JNum real
  | JStr pystr
  | JArr "json list"
  | JObj "(pystr \<times> json) list"

text \<open>The exceptions that can leave a function of the program uncaught.\<close>

datatype exn =
    IndexError
  | KeyError
  | TypeError
  | JSONDecodeError
  | UnicodeDecodeError
  | UnicodeEncodeError
  | FileNotFoundError
  | PermissionError
  | NotADirectoryError
  | FileExistsError
  | IsADirectoryError
  | OSError
  | OtherException

text \<open>
  How a call ends: it returns a value, it calls \<open>sys.exit(n)\<close>, or an exception
  propagates out of it.
\<close>

datatype 'a result = Return 'a | Exit int | Raise exn

text \<open>
  The exit status of the process whose entry point ended with the given result: 0 when
  \<open>main\<close> returns, the argument of \<open>sys.exit\<close>, and 1 after an uncaught exception
  (the interpreter prints the traceback and exits with status 1).
\<close>

fun exit_status :: "'a result \<Rightarrow> int" where
  "exit_status (Return _) = 0"
| "exit_status (Exit n) = n"
| "exit_status (Raise _) = 1"

datatype level = INFO | ERROR

datatype log_arg = ArgNat nat | ArgStr pystr

record request =
  url :: pystr
  data :: json
  headers :: "(pystr \<times> pystr) list"

text \<open>
  What a run does to the outside world, in order. Opening a file for writing empties
  it: that is \<open>FileTruncate\<close>; \<open>FileWrite\<close> carries the bytes that then became the
  content of the file. \<open>Stat\<close> carries the \<open>st_mode\<close> that was returned, \<open>Chmod\<close>
  the mode that was asked for.
\<close>

type_synonym mode = "32 word"

datatype event =
    Log level pystr "log_arg list"
  | ConfigRead pystr
  | EnvGet pystr
  | Which pystr
  | Subprocess "pystr list"
  | UrlOpen request
  | FileRead pystr
  | FileTruncate pystr
  | FileWrite pystr string
  | Stat pystr mode
  | Chmod pystr mode

text \<open>The outcome of \<open>subprocess.check_output(args, encoding="utf-8")\<close>.\<close>

datatype proc_result =
    Stdout pystr
  | CalledProcessError
  | ProcException exn

text \<open>
  The outcome of \<open>urllib.request.urlopen(req)\<close>: a response with its status and its
  body decoded as UTF-8 (\<open>None\<close> when reading or decoding the body raises), a
  \<open>URLError\<close> (which includes the \<open>HTTPError\<close> that \<open>urlopen\<close> raises for an
  error status), or another exception.
\<close>

datatype http_result =
    Response nat "pystr option"
  | URLError
  | HttpException exn

text \<open>
  What \<open>f.write(data)\<close> and closing the file do once the file has been opened for
  writing and is empty. \<open>Encoded bs\<close>: the text layer turned the data into the bytes
  \<open>bs\<close> (the encoding of the locale, after newline translation), and they are the
  content of the file. \<open>WriteError e bs\<close>: encoding the data or writing it raised
  \<open>e\<close>, and \<open>bs\<close> is what the file is left with: nothing, when the data cannot be
  encoded, since the file was emptied when it was opened.
\<close>

datatype write_outcome =
    Encoded string
  | WriteError exn string

text \<open>
  Everything the hook reads from its environment. \<open>config_key\<close> is
  \<open>config.GEMINI_API_KEY\<close> (\<open>None\<close> in the repository, a string once the user sets
  it), \<open>gemini_model\<close> is \<open>config.GEMINI_MODEL\<close>. \<open>shutil.which\<close>,
  \<open>check_output\<close>, \<open>urlopen\<close> and \<open>json.loads\<close> are library functions and are
  parameters of the model. \<open>writable\<close> tells whether opening a path for writing
  succeeds and \<open>open_error\<close> gives the exception that it raises when it does not
  (\<open>PermissionError\<close>, \<open>IsADirectoryError\<close>, \<open>FileNotFoundError\<close> for a
  missing directory); \<open>write_bytes\<close> is the outcome of writing a text to the opened
  file at a path, \<open>decode\<close> the text that reading a file with the given bytes yields
  (\<open>None\<close> when they cannot be decoded).
\<close>

record world =
  argv :: "pystr list"
  config_key :: "pystr option"
  gemini_model :: pystr
  environ :: "pystr \<rightharpoonup> pystr"
  which :: "pystr \<Rightarrow> pystr option"
  check_output :: "pystr list \<Rightarrow> proc_result"
  urlopen :: "request \<Rightarrow> http_result"
  json_loads :: "pystr \<Rightarrow> json option"
  writable :: "pystr \<Rightarrow> bool"
  open_error :: "pystr \<Rightarrow> exn"
  write_bytes :: "pystr \<Rightarrow> pystr \<Rightarrow> write_outcome"
  decode :: "string \<Rightarrow> pystr option"

text \<open>The files of the file system: path to content, in bytes.\<close>

type_synonym files = "pystr \<rightharpoonup> string"

text \<open>
  A piece of the program: from the files before to its result, the files after and the
  events it caused.
\<close>

type_synonym 'a prog = "files \<Rightarrow> 'a result \<times> files \<times> event list"

definition ret :: "'a \<Rightarrow> 'a prog" where
  "ret x = (\<lambda>fs. (Return x, fs, []))"

definition sys_exit :: "int \<Rightarrow> 'a prog" where
  "sys_exit n = (\<lambda>fs. (Exit n, fs, []))"

definition raise :: "exn \<Rightarrow> 'a prog" where
  "raise e = (\<lambda>fs. (Raise e, fs, []))"

definition emit :: "event \<Rightarrow> unit prog" where
  "emit ev = (\<lambda>fs. (Return (), fs, [ev]))"

text \<open>Sequencing: the second part runs only when the first returns.\<close>

definition and_then :: "'a prog \<Rightarrow> ('a \<Rightarrow> 'b prog) \<Rightarrow> 'b prog" where
  "and_then m f = (\<lambda>fs.
     case m fs of
       (Return x, fs1, evs1) \<Rightarrow>
         (case f x fs1 of (r, fs2, evs2) \<Rightarrow> (r, fs2, evs1 @ evs2))
     | (Exit n, fs1, evs1) \<Rightarrow> (Exit n, fs1, evs1)
     | (Raise e, fs1, evs1) \<Rightarrow> (Raise e, fs1, evs1))"

definition logger :: "level \<Rightarrow> pystr \<Rightarrow> log_arg list \<Rightarrow> unit prog" where
  "logger lvl msg args = emit (Log lvl msg args)"

text \<open>
  \<open>Path(p).read_text()\<close>: a missing file raises, and so do bytes that cannot be
  decoded.
\<close>

definition read_text :: "world \<Rightarrow> pystr \<Rightarrow> pystr prog" where
  "read_text w p = (\<lambda>fs.
     case fs p of
       None \<Rightarrow> (Raise FileNotFoundError, fs, [FileRead p])
     | Some bs \<Rightarrow>
         (case decode w bs of
            None \<Rightarrow> (Raise UnicodeDecodeError, fs, [FileRead p])
          | Some t \<Rightarrow> (Return t, fs, [FileRead p])))"

text \<open>
  \<open>Path(p).write_text(v)\<close>, in the order of the library: it raises \<open>TypeError\<close>
  before it opens the file when the data is not a string; it opens the file with mode
  \<open>w\<close>, which raises and changes nothing when the file cannot be opened, and empties
  the file when it can; then it encodes and writes the data. A failure of this last
  step leaves the emptied file behind.
\<close>

definition write_text :: "world \<Rightarrow> pystr \<Rightarrow> json \<Rightarrow> unit prog" where
  "write_text w p v = (\<lambda>fs.
     case v of
       JStr t \<Rightarrow>
         (if writable w p then
            (case write_bytes w p t of
               Encoded bs \<Rightarrow> (Return (), fs(p \<mapsto> bs), [FileTruncate p, FileWrite p bs])
             | WriteError e left \<Rightarrow> (Raise e, fs(p \<mapsto> left), [FileTruncate p]))
          else (Raise (open_error w p), fs, []))
     | _ \<Rightarrow> (Raise TypeError, fs, []))"

text \<open>Python's truth value of an object.\<close>

fun truthy :: "json \<Rightarrow> bool" where
  "truthy JNull = False"
| "truthy (JBool b) = b"
| "truthy (JNum x) = (x \<noteq> 0)"
| "truthy (JStr t) = (t \<noteq> [])"
| "truthy (JArr xs) = (xs \<noteq> [])"
| "truthy (JObj kvs) = (kvs \<noteq> [])"

text \<open>
  \<open>str.strip()\<close>: the code points for which \<open>str.isspace\<close> holds are removed from
  both ends. They are U+0009 to U+000D, U+001C to U+0020, U+0085, U+00A0, U+1680,
  U+2000 to U+200A, U+2028, U+2029, U+202F, U+205F and U+3000.
\<close>

definition is_space :: "nat \<Rightarrow> bool" where
  "is_space c =
     (c \<in> {9..13} \<union> {28..32} \<union> {133, 160, 5760} \<union> {8192..8202}
          \<union> {8232, 8233, 8239, 8287, 12288})"

definition strip :: "pystr \<Rightarrow> pystr" where
  "strip t = rev (dropWhile is_space (rev (dropWhile is_space t)))"

section \<open>gemini\_commit.py\<close>

definition KEY_NAME :: pystr where
  "KEY_NAME = str ''GEMINI_API_KEY''"

text \<open>
  \<open>get_api_key\<close>: the configured key when it is truthy, else the environment
  variable; a missing or empty variable is fatal.
\<close>

definition get_api_key :: "world \<Rightarrow> pystr prog" where
  "get_api_key w =
     and_then (emit (ConfigRead KEY_NAME)) (\<lambda>_.
       case config_key w of
         Some (c # cs) \<Rightarrow> ret (c # cs)
       | _ \<Rightarrow>
           and_then (emit (EnvGet KEY_NAME)) (\<lambda>_.
             case environ w KEY_NAME of
               Some (c # cs) \<Rightarrow> ret (c # cs)
             | _ \<Rightarrow>
                 and_then (logger ERROR (str ''Error: GEMINI_API_KEY not found.'') []) (\<lambda>_.
                 and_then (logger ERROR
                   (str ''Please set the GEMINI_API_KEY in the script or as an environment variable.'') []) (\<lambda>_.
                 sys_exit 1))))"

text \<open>
  The two git queries share their shape: locate the executable (fatal when it is
  missing), run it, and turn \<open>CalledProcessError\<close> into the empty string. Any other
  exception of \<open>check_output\<close> is not caught.
\<close>

definition get_git_diff :: "world \<Rightarrow> pystr prog" where
  "get_git_diff w =
     and_then (emit (Which (str ''git''))) (\<lambda>_.
       case which w (str ''git'') of
         Some (c # cs) \<Rightarrow>
           and_then (emit (Subprocess [c # cs, str ''diff'', str ''--staged''])) (\<lambda>_.
             case check_output w [c # cs, str ''diff'', str ''--staged''] of
               Stdout out \<Rightarrow> ret out
             | CalledProcessError \<Rightarrow> ret []
             | ProcException e \<Rightarrow> raise e)
       | _ \<Rightarrow>
           and_then (logger ERROR (str ''git executable not found.'') []) (\<lambda>_. sys_exit 1))"

definition get_branch_name :: "world \<Rightarrow> pystr prog" where
  "get_branch_name w =
     and_then (emit (Which (str ''git''))) (\<lambda>_.
       case which w (str ''git'') of
         Some (c # cs) \<Rightarrow>
           and_then (emit (Subprocess [c # cs, str ''rev-parse'', str ''--abbrev-ref'', str ''HEAD''])) (\<lambda>_.
             case check_output w [c # cs, str ''rev-parse'', str ''--abbrev-ref'', str ''HEAD''] of
               Stdout out \<Rightarrow> ret (strip out)
             | CalledProcessError \<Rightarrow> ret []
             | ProcException e \<Rightarrow> raise e)
       | _ \<Rightarrow>
           and_then (logger ERROR (str ''git executable not found.'') []) (\<lambda>_. sys_exit 1))"

text \<open>
  The request of \<open>generate_commit_message\<close>. The prompt is the f-string of the source,
  line by line, each line ended by a newline, with the branch name, the optional hint
  line and the diff inserted.
\<close>

definition nl :: pystr where
  "nl = [10]"

definition quote :: pystr where
  "quote = [39]"

definition user_prompt :: "pystr option \<Rightarrow> pystr" where
  "user_prompt user_message =
     (case user_message of
        Some (c # cs) \<Rightarrow>
          (str ''The user has provided the following hint: '') @ quote @ (c # cs) @ quote
      | _ \<Rightarrow> [])"

definition prompt :: "pystr \<Rightarrow> pystr \<Rightarrow> pystr option \<Rightarrow> pystr" where
  "prompt diff branch_name user_message =
     concat (map (\<lambda>l. l @ nl)
       [ [],
         (str ''    Generate a commit message for the following changes on branch '') @ quote
           @ branch_name @ quote @ (str ''.''),
         (str ''    '') @ user_prompt user_message,
         [],
         (str ''    The commit message should be a 1-2 sentence high-level summary,''),
         (str ''    followed by two newlines, and a markdown list of the changes in''),
         (str ''    conventional commit format. You should only state facts and not''),
         (str ''    assume the intentions of the change.''),
         [],
         (str ''    Use the following conventional commit types: feat, fix, docs, style,''),
         (str ''    refactor, perf, test, build, ci, chore, revert.''),
         [],
         (str ''    Example:''),
         (str ''    ```''),
         (str ''    API now supports HTTPS connections and DELETE''),
         (str ''    method for `Pancakes` type. Plus minor bug fixes.''),
         [],
         (str ''    - feat(api): Add HTTPS support to api''),
         (str ''    - feat(api): Add delete to `Pancakes` type''),
         (str ''    - fix(pancakes): Fix for case when syrup is missing''),
         (str ''    - docs(pancakes): Fix misspellings''),
         (str ''    ```''),
         [],
         (str ''    Here is the diff:''),
         (str ''    ```''),
         (str ''    '') @ diff,
         (str ''    ```'') ])
     @ (str ''    '')"

definition build_request :: "world \<Rightarrow> pystr \<Rightarrow> pystr \<Rightarrow> pystr \<Rightarrow> pystr option \<Rightarrow> request" where
  "build_request w diff branch_name api_key user_message =
     \<lparr> url = str ''https://generativelanguage.googleapis.com/v1beta/models/''
             @ gemini_model w @ (str '':generateContent?key='') @ api_key,
       data = JObj [(str ''contents'',
                JArr [JObj [(str ''parts'',
                  JArr [JObj [(str ''text'', JStr (prompt diff branch_name user_message))]])]])],
       headers = [(str ''Content-Type'', str ''application/json'')] \<rparr>"

text \<open>
  Python subscripting of a value of \<open>json.loads\<close>. \<open>v["k"]\<close> works on a dictionary
  that has the key. \<open>v[0]\<close> works on a non-empty list and on a non-empty string, where
  it gives the first character as a string; on a dictionary it raises \<open>KeyError\<close>,
  since every key is a string.
\<close>

fun getitem_str :: "json \<Rightarrow> pystr \<Rightarrow> exn + json" where
  "getitem_str (JObj kvs) k = (case map_of kvs k of None \<Rightarrow> Inl KeyError | Some v \<Rightarrow> Inr v)"
| "getitem_str _ k = Inl TypeError"

fun getitem_0 :: "json \<Rightarrow> exn + json" where
  "getitem_0 (JArr xs) = (case xs of [] \<Rightarrow> Inl IndexError | x # _ \<Rightarrow> Inr x)"
| "getitem_0 (JStr t) = (case t of [] \<Rightarrow> Inl IndexError | c # _ \<Rightarrow> Inr (JStr [c]))"
| "getitem_0 (JObj kvs) = Inl KeyError"
| "getitem_0 _ = Inl TypeError"

definition sub :: "exn + json \<Rightarrow> (json \<Rightarrow> exn + json) \<Rightarrow> exn + json" where
  "sub r f = (case r of Inl e \<Rightarrow> Inl e | Inr v \<Rightarrow> f v)"

text \<open>\<open>result["candidates"][0]["content"]["parts"][0]["text"]\<close>, left to right.\<close>

definition extract_text :: "json \<Rightarrow> exn + json" where
  "extract_text result =
     sub (sub (sub (sub (sub (getitem_str result (str ''candidates''))
       getitem_0)
       (\<lambda>v. getitem_str v (str ''content'')))
       (\<lambda>v. getitem_str v (str ''parts'')))
       getitem_0)
       (\<lambda>v. getitem_str v (str ''text''))"

text \<open>
  \<open>generate_commit_message\<close>: one request. Status 200 returns the extracted value,
  whatever its type, and lets every exception of decoding, parsing and subscripting
  propagate; any other status and \<open>URLError\<close> exit with status 1. No path reaches the
  final \<open>return None\<close> of the source.
\<close>

definition generate_commit_message ::
  "world \<Rightarrow> pystr \<Rightarrow> pystr \<Rightarrow> pystr \<Rightarrow> pystr option \<Rightarrow> json prog" where
  "generate_commit_message w diff branch_name api_key user_message =
     (let req = build_request w diff branch_name api_key user_message in
      and_then (emit (UrlOpen req)) (\<lambda>_.
        case urlopen w req of
          Response status body \<Rightarrow>
            (if status = 200 then
               (case body of
                  None \<Rightarrow> raise UnicodeDecodeError
                | Some t \<Rightarrow>
                    (case json_loads w t of
                       None \<Rightarrow> raise JSONDecodeError
                     | Some result \<Rightarrow>
                         (case extract_text result of
                            Inl e \<Rightarrow> raise e
                          | Inr v \<Rightarrow> ret v)))
             else
               and_then (logger ERROR (str ''Error: Gemini API request failed with status %s'')
                           [ArgNat status]) (\<lambda>_.
                 case body of
                   None \<Rightarrow> raise UnicodeDecodeError
                 | Some t \<Rightarrow> and_then (logger ERROR t []) (\<lambda>_. sys_exit 1)))
        | URLError \<Rightarrow>
            and_then (logger ERROR (str ''Error: Could not connect to Gemini API'') []) (\<lambda>_.
              sys_exit 1)
        | HttpException e \<Rightarrow> raise e))"

text \<open>
  \<open>main\<close>. \<open>sys.argv[1]\<close> raises \<open>IndexError\<close> when the hook is called without a
  file argument. The branch name is fetched before the diff is tested for emptiness.
\<close>

definition main :: "world \<Rightarrow> unit prog" where
  "main w =
     (if length (argv w) < 2 then raise IndexError
      else
        let commit_msg_file = argv w ! 1;
            commit_source = (if length (argv w) > 2 then argv w ! 2 else [])
        in
        if commit_source = (str ''merge'') then
          and_then (logger INFO (str ''Merge commit detected. Skipping.'') []) (\<lambda>_. sys_exit 0)
        else
          and_then
            (if commit_source = str ''message''
             then and_then (read_text w commit_msg_file) (\<lambda>t. ret (Some (strip t)))
             else ret None) (\<lambda>user_message.
          and_then (get_api_key w) (\<lambda>api_key.
          and_then (get_git_diff w) (\<lambda>diff.
          and_then (get_branch_name w) (\<lambda>branch_name.
            if diff = [] then
              and_then (logger INFO (str ''No staged changes found. Aborting.'') []) (\<lambda>_. sys_exit 0)
            else
              and_then (logger INFO (str ''Generating commit message...'') []) (\<lambda>_.
              and_then (generate_commit_message w diff branch_name api_key user_message)
                (\<lambda>commit_message.
                   if truthy commit_message
                   then write_text w commit_msg_file commit_message
                   else ret ())))))))"

section \<open>install.py\<close>

text \<open>
  The installer works on directories and permission bits, so its file system maps a path
  to a directory or a regular file, each with its \<open>st_mode\<close>; a file has its content
  in bytes.
\<close>

datatype node = Dir mode | File string mode

type_synonym fsys = "pystr \<rightharpoonup> node"

text \<open>
  \<open>script_path_resolved\<close> is \<open>str((SCRIPT_DIR / SCRIPT_NAME).resolve())\<close>;
  \<open>file_create_mode\<close> and \<open>dir_create_mode\<close> are the \<open>st_mode\<close> a new file and a
  new directory get (they depend on the umask); \<open>may_write\<close> tells whether the process
  is allowed to open a path for writing. \<open>mode_after_write\<close> gives the \<open>st_mode\<close> an
  existing file has after it was opened for writing and written, from the one it had
  before: the kernel clears the set-user-ID and set-group-ID bits for a writer that is
  not privileged and keeps the mode for one that is. \<open>chmod_drops_setgid\<close> tells
  whether \<open>chmod\<close> is called without privileges by a process that is not a member of
  the group of the file: the kernel then turns the set-group-ID bit off in the mode it
  sets, without an error. \<open>hook_bytes\<close> is the outcome of writing a text to the opened
  hook file.
\<close>

record install_world =
  script_path_resolved :: pystr
  file_create_mode :: mode
  dir_create_mode :: mode
  may_write :: "pystr \<Rightarrow> bool"
  mode_after_write :: "mode \<Rightarrow> mode"
  chmod_drops_setgid :: bool
  hook_bytes :: "pystr \<Rightarrow> write_outcome"

definition GIT_DIR :: pystr where
  "GIT_DIR = str ''.git''"

definition HOOK_DIR :: pystr where
  "HOOK_DIR = str ''.git/hooks''"

definition HOOK_NAME :: pystr where
  "HOOK_NAME = str ''prepare-commit-msg''"

definition hook_path :: pystr where
  "hook_path = HOOK_DIR @ str ''/'' @ HOOK_NAME"

text \<open>\<open>stat.S_IEXEC\<close>, the owner-execute bit, octal 100.\<close>

definition S_IEXEC :: mode where
  "S_IEXEC = 0x40"

text \<open>The twelve mode bits, octal 7777; \<open>chmod\<close> changes no other bit.\<close>

definition PERM_MASK :: mode where
  "PERM_MASK = 0xFFF"

text \<open>The set-group-ID bit, octal 2000.\<close>

definition S_ISGID :: mode where
  "S_ISGID = 0x400"


text \<open>The code point of the backslash.\<close>

definition backslash :: nat where
  "backslash = 92"

text \<open>\<open>s.replace("\\", "\\\\")\<close>: every backslash is doubled.\<close>

definition double_backslashes :: "pystr \<Rightarrow> pystr" where
  "double_backslashes t = concat (map (\<lambda>c. if c = backslash then [c, c] else [c]) t)"

definition hook_content :: "install_world \<Rightarrow> pystr" where
  "hook_content iw =
     str ''#!/bin/sh'' @ [10] @ str ''python '' @ double_backslashes (script_path_resolved iw)
       @ str '' $1'' @ [10]"

text \<open>
  \<open>Path(p).mkdir(exist_ok=True)\<close> under the parent directory \<open>parent\<close>: an existing
  directory is accepted, anything else in the way raises.
\<close>

definition mkdir_exist_ok :: "install_world \<Rightarrow> pystr \<Rightarrow> pystr \<Rightarrow> fsys \<Rightarrow> exn + fsys" where
  "mkdir_exist_ok iw parent p fs =
     (case fs p of
        Some (Dir m) \<Rightarrow> Inr fs
      | Some (File t m) \<Rightarrow> Inl FileExistsError
      | None \<Rightarrow>
          (case fs parent of
             Some (Dir m) \<Rightarrow> Inr (fs(p \<mapsto> Dir (dir_create_mode iw)))
           | Some (File t m) \<Rightarrow> Inl NotADirectoryError
           | None \<Rightarrow> Inl FileNotFoundError))"

text \<open>
  The bytes and the mode of a file that has just been opened for writing with the given
  mode, after the data was written or failed to be written, with the exception if any
  and the events.
\<close>

definition write_opened ::
  "install_world \<Rightarrow> pystr \<Rightarrow> pystr \<Rightarrow> mode \<Rightarrow> fsys \<Rightarrow> exn option \<times> fsys \<times> event list" where
  "write_opened iw p t m fs =
     (case hook_bytes iw t of
        Encoded bs \<Rightarrow> (None, fs(p \<mapsto> File bs m), [FileTruncate p, FileWrite p bs])
      | WriteError e left \<Rightarrow> (Some e, fs(p \<mapsto> File left m), [FileTruncate p]))"

text \<open>
  \<open>Path(p).write_text(t)\<close> with modes. Opening fails, with nothing changed, on a
  directory, without permission and without a parent directory. An existing file is
  emptied and has the mode the kernel leaves it with after a write; a new file has the
  creation mode. The result is the exception, if one was raised, the file system and
  the events.
\<close>

definition fs_write_text ::
  "install_world \<Rightarrow> pystr \<Rightarrow> pystr \<Rightarrow> pystr \<Rightarrow> fsys \<Rightarrow> exn option \<times> fsys \<times> event list" where
  "fs_write_text iw parent p t fs =
     (case fs p of
        Some (Dir m) \<Rightarrow> (Some IsADirectoryError, fs, [])
      | Some (File old m) \<Rightarrow>
          (if may_write iw p then write_opened iw p t (mode_after_write iw m) fs
           else (Some PermissionError, fs, []))
      | None \<Rightarrow>
          (case fs parent of
             Some (Dir m) \<Rightarrow>
               (if may_write iw p then write_opened iw p t (file_create_mode iw) fs
                else (Some PermissionError, fs, []))
           | Some (File old m) \<Rightarrow> (Some NotADirectoryError, fs, [])
           | None \<Rightarrow> (Some FileNotFoundError, fs, [])))"

text \<open>\<open>Path(p).stat().st_mode\<close>.\<close>

definition st_mode :: "fsys \<Rightarrow> pystr \<Rightarrow> exn + mode" where
  "st_mode fs p =
     (case fs p of
        None \<Rightarrow> Inl FileNotFoundError
      | Some (Dir m) \<Rightarrow> Inr m
      | Some (File t m) \<Rightarrow> Inr m)"

text \<open>
  \<open>Path(p).chmod(m)\<close>, called by the owner of the file: the mode bits of the file
  (octal 7777) become those of \<open>m\<close>, without the set-group-ID bit when the kernel
  drops it; the other bits of its \<open>st_mode\<close> (the file type) stay.
\<close>

definition set_perms :: "mode \<Rightarrow> mode \<Rightarrow> mode" where
  "set_perms old m = (old AND NOT PERM_MASK) OR (m AND PERM_MASK)"

definition mode_set :: "install_world \<Rightarrow> mode \<Rightarrow> mode" where
  "mode_set iw m = (if chmod_drops_setgid iw then m AND NOT S_ISGID else m)"

definition chmod :: "install_world \<Rightarrow> pystr \<Rightarrow> mode \<Rightarrow> fsys \<Rightarrow> exn + fsys" where
  "chmod iw p m fs =
     (case fs p of
        None \<Rightarrow> Inl FileNotFoundError
      | Some (Dir old) \<Rightarrow> Inr (fs(p \<mapsto> Dir (set_perms old (mode_set iw m))))
      | Some (File t old) \<Rightarrow> Inr (fs(p \<mapsto> File t (set_perms old (mode_set iw m)))))"

text \<open>
  \<open>main\<close> of the installer. The mode passed to \<open>chmod\<close> is computed from the mode
  that \<open>stat\<close> returns after the hook file was written.
\<close>

definition install_main :: "install_world \<Rightarrow> fsys \<Rightarrow> unit result \<times> fsys \<times> event list" where
  "install_main iw fs =
     (if fs GIT_DIR = None then
        (Exit 1, fs, [Log ERROR (str ''Error: This is not a git repository.'') []])
      else
        case mkdir_exist_ok iw GIT_DIR HOOK_DIR fs of
          Inl e \<Rightarrow> (Raise e, fs, [])
        | Inr fs1 \<Rightarrow>
            (case fs_write_text iw HOOK_DIR hook_path (hook_content iw) fs1 of
               (Some e, fs2, evs) \<Rightarrow> (Raise e, fs2, evs)
             | (None, fs2, evs) \<Rightarrow>
                 (case st_mode fs2 hook_path of
                    Inl e \<Rightarrow> (Raise e, fs2, evs)
                  | Inr m \<Rightarrow>
                      (case chmod iw hook_path (m OR S_IEXEC) fs2 of
                         Inl e \<Rightarrow> (Raise e, fs2, evs @ [Stat hook_path m])
                       | Inr fs3 \<Rightarrow>
                           (Return (), fs3,
                            evs @ [Stat hook_path m, Chmod hook_path (m OR S_IEXEC),
                                   Log INFO (str ''Successfully installed %s hook.'')
                                     [ArgStr HOOK_NAME]])))))"

section \<open>Notions the properties are stated with\<close>

text \<open>
  The path \<open>candidates[0].content.parts[0].text\<close> read on the JSON document itself,
  independently of Python's subscripting: a member is looked up in an object only, an
  element in an array only. \<open>text_path\<close> is the value at the end of the path, if the
  document has the path.
\<close>

fun json_member :: "pystr \<Rightarrow> json \<Rightarrow> json option" where
  "json_member k (JObj kvs) = map_of kvs k"
| "json_member k _ = None"

fun json_first :: "json \<Rightarrow> json option" where
  "json_first (JArr (x # xs)) = Some x"
| "json_first _ = None"

definition text_path :: "json \<Rightarrow> json option" where
  "text_path doc =
     Option.bind (Option.bind (Option.bind (Option.bind (Option.bind
       (json_member (str ''candidates'') doc)
       json_first)
       (json_member (str ''content'')))
       (json_member (str ''parts'')))
       json_first)
       (json_member (str ''text''))"

fun is_write :: "event \<Rightarrow> bool" where
  "is_write (FileWrite p bs) = True"
| "is_write _ = False"

fun is_truncate :: "event \<Rightarrow> bool" where
  "is_truncate (FileTruncate p) = True"
| "is_truncate _ = False"

fun is_urlopen :: "event \<Rightarrow> bool" where
  "is_urlopen (UrlOpen req) = True"
| "is_urlopen _ = False"



text \<open>
  Three text layers to run the program with. In an ASCII locale on a POSIX system a
  text is written as its code points when they are all below 128, and cannot be
  encoded otherwise; reading is the converse. On a system that translates newlines,
  each line feed is written as carriage return and line feed.
\<close>

definition ascii_write :: "pystr \<Rightarrow> write_outcome" where
  "ascii_write t =
     (if list_all (\<lambda>c. c < 128) t then Encoded (map char_of t)
      else WriteError UnicodeEncodeError [])"

definition ascii_decode :: "string \<Rightarrow> pystr option" where
  "ascii_decode bs =
     (if list_all (\<lambda>c. (of_char c :: nat) < 128) bs then Some (map of_char bs) else None)"

definition crlf_write :: "pystr \<Rightarrow> write_outcome" where
  "crlf_write t =
     (if list_all (\<lambda>c. c < 128) t
      then Encoded (concat (map (\<lambda>c. if c = 10 then [CHR 0x0D, CHR 0x0A] else [char_of c]) t))
      else WriteError UnicodeEncodeError [])"

text \<open>
  A concrete environment to run the hook in: the hook is called as
  \<open>gemini_commit.py COMMIT_EDITMSG\<close>, the key comes from the environment, git is
  installed, one file is staged on branch \<open>main\<close>, the API answers with one
  candidate, and the locale is ASCII.
\<close>

definition reply_with :: "pystr \<Rightarrow> json" where
  "reply_with t =
     JObj [(str ''candidates'',
       JArr [JObj [(str ''content'',
         JObj [(str ''parts'', JArr [JObj [(str ''text'', JStr t)]])])]])]"

definition api_reply :: json where
  "api_reply = reply_with (str ''Add README'')"

definition base_world :: world where
  "base_world =
     \<lparr> argv = [str ''gemini_commit.py'', str ''COMMIT_EDITMSG''],
       config_key = None,
       gemini_model = str ''gemini-2.5-pro'',
       environ = [str ''GEMINI_API_KEY'' \<mapsto> str ''k''],
       which = (\<lambda>name. if name = str ''git'' then Some (str ''/usr/bin/git'') else None),
       check_output = (\<lambda>args.
         if args = [str ''/usr/bin/git'', str ''diff'', str ''--staged'']
           then Stdout (str ''+README'')
         else if args = [str ''/usr/bin/git'', str ''rev-parse'', str ''--abbrev-ref'', str ''HEAD'']
           then Stdout (str ''main'' @ [10])
         else CalledProcessError),
       urlopen = (\<lambda>req. Response 200 (Some (str ''reply''))),
       json_loads = (\<lambda>t. if t = str ''reply'' then Some api_reply else None),
       writable = (\<lambda>p. True),
       open_error = (\<lambda>p. PermissionError),
       write_bytes = (\<lambda>p. ascii_write),
       decode = ascii_decode \<rparr>"

definition base_files :: files where
  "base_files = [str ''COMMIT_EDITMSG'' \<mapsto> ''draft'']"

text \<open>
  Events that touch neither the commit-message file nor the network are called quiet.
  The last step of \<open>main\<close>, the API call followed by the conditional write, is named
  so that the runs of \<open>main\<close> can be described as a quiet prefix followed by it.
\<close>

definition quiet :: "event list \<Rightarrow> bool" where
  "quiet evs = (filter (\<lambda>e. is_write e \<or> is_truncate e \<or> is_urlopen e) evs = [])"

definition call_and_write ::
  "world \<Rightarrow> pystr \<Rightarrow> pystr \<Rightarrow> pystr \<Rightarrow> pystr option \<Rightarrow> unit prog" where
  "call_and_write w diff branch_name api_key user_message =
     and_then (generate_commit_message w diff branch_name api_key user_message)
       (\<lambda>commit_message.
          if truthy commit_message
          then write_text w (argv w ! 1) commit_message
          else ret ())"

definition quiet_prog :: "'a prog \<Rightarrow> bool" where
  "quiet_prog m = (\<forall>fs r fs' evs. m fs = (r, fs', evs) \<longrightarrow> fs' = fs \<and> quiet evs)"

definition shape :: "world \<Rightarrow> unit prog \<Rightarrow> bool" where
  "shape w p =
     (\<forall>fs r fs' evs. p fs = (r, fs', evs) \<longrightarrow>
        (fs' = fs \<and> quiet evs \<and> r \<noteq> Return ())
      \<or> (\<exists>d b k h pre rest. d \<noteq> [] \<and> evs = pre @ rest \<and> quiet pre
            \<and> call_and_write w d b k h fs = (r, fs', rest)))"

text \<open>
  The API answered with status 200 and a document whose text is the string \<open>t\<close>, to a
  request that is among the events.
\<close>

definition replied :: "world \<Rightarrow> event list \<Rightarrow> pystr \<Rightarrow> bool" where
  "replied w evs t =
     (\<exists>req body doc. UrlOpen req \<in> set evs
        \<and> urlopen w req = Response 200 (Some body)
        \<and> json_loads w body = Some doc \<and> extract_text doc = Inr (JStr t))"

text \<open>The three components of a run.\<close>

definition result_of :: "'a result \<times> 's \<times> event list \<Rightarrow> 'a result" where
  "result_of run = fst run"

definition files_of :: "'a result \<times> 's \<times> event list \<Rightarrow> 's" where
  "files_of run = fst (snd run)"

definition events_of :: "'a result \<times> 's \<times> event list \<Rightarrow> event list" where
  "events_of run = snd (snd run)"

text \<open>Variations of the concrete environment, one for each situation examined below.\<close>

definition merge_world :: world where
  "merge_world =
     base_world \<lparr> argv := [str ''gemini_commit.py'', str ''COMMIT_EDITMSG'', str ''merge''],
                  environ := Map.empty \<rparr>"

definition empty_key_world :: world where
  "empty_key_world =
     base_world \<lparr> config_key := Some [], environ := [str ''GEMINI_API_KEY'' \<mapsto> []] \<rparr>"

definition empty_config_world :: world where
  "empty_config_world = base_world \<lparr> config_key := Some [] \<rparr>"

definition empty_env_world :: world where
  "empty_env_world = base_world \<lparr> environ := [str ''GEMINI_API_KEY'' \<mapsto> []] \<rparr>"

definition no_key_world :: world where
  "no_key_world = base_world \<lparr> environ := Map.empty \<rparr>"

definition no_git_world :: world where
  "no_git_world = base_world \<lparr> which := (\<lambda>name. None) \<rparr>"

text \<open>
  Nothing is staged, and the name of the current branch is not valid UTF-8, so decoding
  the output of \<open>git rev-parse\<close> raises.
\<close>

definition undecodable_branch_world :: world where
  "undecodable_branch_world =
     base_world \<lparr> check_output := (\<lambda>args.
       if args = [str ''/usr/bin/git'', str ''diff'', str ''--staged''] then Stdout []
       else if args = [str ''/usr/bin/git'', str ''rev-parse'', str ''--abbrev-ref'', str ''HEAD'']
         then ProcException UnicodeDecodeError
       else CalledProcessError) \<rparr>"

definition nothing_staged_world :: world where
  "nothing_staged_world =
     base_world \<lparr> check_output := (\<lambda>args.
       if args = [str ''/usr/bin/git'', str ''rev-parse'', str ''--abbrev-ref'', str ''HEAD'']
         then Stdout (str ''main'' @ [10])
       else CalledProcessError) \<rparr>"

text \<open>The API answers 200 with a body that is not JSON, or with no candidate.\<close>

definition not_json_world :: world where
  "not_json_world = base_world \<lparr> urlopen := (\<lambda>req. Response 200 (Some (str ''<html>''))) \<rparr>"

definition no_candidate_world :: world where
  "no_candidate_world =
     base_world \<lparr> json_loads := (\<lambda>t. Some (JObj [(str ''candidates'', JArr [])])) \<rparr>"

text \<open>The API answers 200 with an empty text, or the request fails with status 429.\<close>

definition empty_text_world :: world where
  "empty_text_world = base_world \<lparr> json_loads := (\<lambda>t. Some (reply_with [])) \<rparr>"

definition rate_limited_world :: world where
  "rate_limited_world = base_world \<lparr> urlopen := (\<lambda>req. URLError) \<rparr>"

text \<open>
  The API answers with the message \<open>caf\<close> followed by U+00E9, which the ASCII locale
  cannot encode.
\<close>

definition cafe :: pystr where
  "cafe = str ''caf'' @ [233]"

definition cafe_world :: world where
  "cafe_world = base_world \<lparr> json_loads := (\<lambda>t. Some (reply_with cafe)) \<rparr>"

text \<open>
  The API answers with a message of two lines, and the text layer translates newlines.
\<close>

definition two_lines :: pystr where
  "two_lines = str ''Add'' @ [10] @ str ''README''"

definition crlf_world :: world where
  "crlf_world =
     base_world \<lparr> json_loads := (\<lambda>t. Some (reply_with two_lines)),
                  write_bytes := (\<lambda>p. crlf_write) \<rparr>"

definition base_request :: request where
  "base_request = build_request base_world (str ''+README'') (str ''main'') (str ''k'') None"


text \<open>
  A concrete installation by a privileged user: a repository without a hooks
  directory, files created with mode 0644 (\<open>st_mode\<close> octal 100644), directories with
  octal 40755.
\<close>

definition base_install :: install_world where
  "base_install =
     \<lparr> script_path_resolved = str ''/opt/hook/gemini_commit.py'',
       file_create_mode = 0x81A4,
       dir_create_mode = 0x41ED,
       may_write = (\<lambda>p. True),
       mode_after_write = (\<lambda>m. m),
       chmod_drops_setgid = False,
       hook_bytes = ascii_write \<rparr>"






section \<open>Auxiliary facts\<close>

lemma str_simps [simp]: "str [] = []" "str (c # cs) = of_char c # str cs"
  by (simp_all add: str_def)

lemma str_eq_iff [simp]: "str a = str b \<longleftrightarrow> a = b"
  by (simp add: str_def inj_map_eq_map inj_of_char)

lemmas prims = and_then_def ret_def emit_def logger_def sys_exit_def raise_def

lemma quiet_simps [simp]: "quiet []" "quiet (evs @ evs') = (quiet evs \<and> quiet evs')"
  "quiet (e # evs) = (\<not> is_write e \<and> \<not> is_truncate e \<and> \<not> is_urlopen e \<and> quiet evs)"
  by (auto simp: quiet_def)

lemma and_then_cases:
  assumes "and_then m f fs = (r, fs', evs)"
  shows "(\<exists>x fs1 e1 e2. m fs = (Return x, fs1, e1) \<and> f x fs1 = (r, fs', e2) \<and> evs = e1 @ e2)
       \<or> (\<exists>n. m fs = (Exit n, fs', evs) \<and> r = Exit n)
       \<or> (\<exists>e. m fs = (Raise e, fs', evs) \<and> r = Raise e)"
  using assms by (auto simp: and_then_def split: prod.splits result.splits)

lemma quiet_get_api_key: "quiet_prog (get_api_key w)"
  by (auto simp: quiet_prog_def get_api_key_def prims split: option.splits list.splits)

lemma quiet_get_git_diff: "quiet_prog (get_git_diff w)"
  by (auto simp: quiet_prog_def get_git_diff_def prims split: option.splits list.splits proc_result.splits)

lemma quiet_get_branch_name: "quiet_prog (get_branch_name w)"
  by (auto simp: quiet_prog_def get_branch_name_def prims split: option.splits list.splits proc_result.splits)

lemma quiet_logger: "quiet_prog (logger lvl msg args)"
  by (simp add: quiet_prog_def logger_def emit_def)

lemma quiet_hint: "quiet_prog (and_then (read_text w p) (\<lambda>t. ret (Some (strip t))))"
  by (auto simp: quiet_prog_def read_text_def prims split: option.splits)

lemma quiet_ret: "quiet_prog (ret x)"
  by (simp add: quiet_prog_def ret_def)




lemma shapeD:
  assumes "shape w p" "p fs = (r, fs', evs)"
  shows "(fs' = fs \<and> quiet evs \<and> r \<noteq> Return ())
      \<or> (\<exists>d b k h pre rest. d \<noteq> [] \<and> evs = pre @ rest \<and> quiet pre
            \<and> call_and_write w d b k h fs = (r, fs', rest))"
  using assms(1) [unfolded shape_def, rule_format, OF assms(2)] .

lemma shapeE:
  assumes "shape w p" "p fs = (r, fs', evs)"
  obtains (stopped) "fs' = fs" "quiet evs" "r \<noteq> Return ()"
  | (called) d b k h pre rest where "d \<noteq> []" "evs = pre @ rest" "quiet pre"
      "call_and_write w d b k h fs = (r, fs', rest)"
  using shapeD [OF assms] by (elim disjE exE conjE)

lemma quiet_progD: "quiet_prog m \<Longrightarrow> m fs = (r, fs', evs) \<Longrightarrow> fs' = fs \<and> quiet evs"
  unfolding quiet_prog_def by (elim allE impE) simp_all

lemma shape_and_then:
  assumes m: "quiet_prog m" and f: "\<And>x. shape w (f x)"
  shows "shape w (and_then m f)"
  unfolding shape_def
proof (intro allI impI)
  fix fs r fs' evs
  assume run: "and_then m f fs = (r, fs', evs)"
  from and_then_cases [OF run]
  consider (go) x fs1 e1 e2 where "m fs = (Return x, fs1, e1)" "f x fs1 = (r, fs', e2)" "evs = e1 @ e2"
    | (exit) n where "m fs = (Exit n, fs', evs)" "r = Exit n"
    | (exn) e where "m fs = (Raise e, fs', evs)" "r = Raise e"
    by (elim disjE exE conjE)
  then show "(fs' = fs \<and> quiet evs \<and> r \<noteq> Return ())
      \<or> (\<exists>d b k h pre rest. d \<noteq> [] \<and> evs = pre @ rest \<and> quiet pre
            \<and> call_and_write w d b k h fs = (r, fs', rest))"
  proof cases
    case go
    from quiet_progD [OF m go(1)] have same: "fs1 = fs" and q1: "quiet e1"
      by simp_all
    from go(2) same have run2: "f x fs = (r, fs', e2)" by simp
    from f [of x] run2 show ?thesis
    proof (cases rule: shapeE)
      case stopped
      with q1 go(3) show ?thesis by simp
    next
      case (called d b k h pre rest)
      have "evs = (e1 @ pre) @ rest" "quiet (e1 @ pre)"
        using go(3) called(2,3) q1 by simp_all
      with called(1,4) show ?thesis by (intro disjI2 exI conjI)
    qed
  next
    case exit
    with quiet_progD [OF m exit(1)] show ?thesis by simp
  next
    case exn
    with quiet_progD [OF m exn(1)] show ?thesis by simp
  qed
qed

lemma shape_stop: "shape w (and_then (logger lvl msg args) (\<lambda>_. sys_exit n))"
  by (simp add: shape_def prims)

lemma shape_raise: "shape w (raise e)"
  by (simp add: shape_def prims)

lemma shape_call:
  assumes "d \<noteq> []"
  shows "shape w (and_then (logger lvl msg args) (\<lambda>_. call_and_write w d b k h))"
  unfolding shape_def
proof (intro allI impI)
  fix fs r fs' evs
  assume run: "and_then (logger lvl msg args) (\<lambda>_. call_and_write w d b k h) fs = (r, fs', evs)"
  obtain rest where rest: "call_and_write w d b k h fs = (r, fs', rest)"
    and evs: "evs = [Log lvl msg args] @ rest"
    using run by (auto simp: and_then_def logger_def emit_def split: prod.splits)
  have "quiet [Log lvl msg args]" by simp
  with assms rest evs show "(fs' = fs \<and> quiet evs \<and> r \<noteq> Return ())
      \<or> (\<exists>d b k h pre rest. d \<noteq> [] \<and> evs = pre @ rest \<and> quiet pre
            \<and> call_and_write w d b k h fs = (r, fs', rest))"
    by (intro disjI2 exI conjI)
qed

lemma shape_chain:
  assumes "quiet_prog hint"
  shows "shape w
     (and_then hint (\<lambda>user_message.
      and_then (get_api_key w) (\<lambda>api_key.
      and_then (get_git_diff w) (\<lambda>diff.
      and_then (get_branch_name w) (\<lambda>branch_name.
        if diff = [] then
          and_then (logger INFO (str ''No staged changes found. Aborting.'') []) (\<lambda>_. sys_exit 0)
        else
          and_then (logger INFO (str ''Generating commit message...'') []) (\<lambda>_.
            call_and_write w diff branch_name api_key user_message))))))"
  apply (rule shape_and_then [OF assms])
  apply (rule shape_and_then [OF quiet_get_api_key])
  apply (rule shape_and_then [OF quiet_get_git_diff])
  apply (rule shape_and_then [OF quiet_get_branch_name])
  apply (simp only: split: if_split)
  apply (intro conjI impI shape_stop shape_call)
  apply assumption
  done

lemma main_shape: "shape w (main w)"
  unfolding main_def Let_def call_and_write_def [symmetric]
  by (simp add: shape_raise shape_stop shape_chain quiet_hint quiet_ret)


lemmas run_parts = result_of_def files_of_def events_of_def

lemmas world_defs = base_world_def base_files_def api_reply_def reply_with_def merge_world_def
  empty_key_world_def empty_config_world_def empty_env_world_def no_key_world_def
  no_git_world_def undecodable_branch_world_def
  nothing_staged_world_def not_json_world_def no_candidate_world_def empty_text_world_def
  rate_limited_world_def cafe_world_def cafe_def crlf_world_def two_lines_def
  base_request_def ascii_write_def ascii_decode_def crlf_write_def

lemmas hook_defs = main_def get_api_key_def get_git_diff_def get_branch_name_def
  generate_commit_message_def read_text_def write_text_def KEY_NAME_def
  extract_text_def sub_def

lemma quiet_no:
  "quiet evs \<Longrightarrow> e \<in> set evs \<Longrightarrow> \<not> is_write e \<and> \<not> is_truncate e \<and> \<not> is_urlopen e"
  by (auto simp: quiet_def filter_empty_conv)

lemma quiet_filter:
  "quiet evs \<Longrightarrow>
     filter is_write evs = [] \<and> filter is_truncate evs = [] \<and> filter is_urlopen evs = []"
  by (auto simp: quiet_def filter_empty_conv)

lemma write_text_cases:
  assumes "write_text w p v fs = (r, fs', evs)"
  shows "(evs = [] \<and> fs' = fs \<and> (\<exists>e. r = Raise e))
       \<or> (\<exists>t. v = JStr t \<and> writable w p
             \<and> (case write_bytes w p t of
                   Encoded bs \<Rightarrow>
                     r = Return () \<and> fs' = fs(p \<mapsto> bs) \<and> evs = [FileTruncate p, FileWrite p bs]
                 | WriteError e left \<Rightarrow>
                     r = Raise e \<and> fs' = fs(p \<mapsto> left) \<and> evs = [FileTruncate p]))"
  using assms
  by (cases v) (auto simp: write_text_def split: if_splits write_outcome.splits)

lemma tail_events:
  assumes "call_and_write w d b k h fs = (r, fs', rest)"
  shows "\<exists>more. rest = UrlOpen (build_request w d b k h) # more
           \<and> filter is_urlopen more = [] \<and> length (filter is_write more) \<le> 1
           \<and> length (filter is_truncate more) \<le> 1"
  using assms
  by (auto simp: call_and_write_def generate_commit_message_def write_text_def prims Let_def
      split: http_result.splits option.splits sum.splits if_splits json.splits
        write_outcome.splits)

lemma tail_reply:
  assumes "call_and_write w d b k h fs = (r, fs', rest)"
    and "urlopen w (build_request w d b k h) = Response 200 (Some body)"
    and "json_loads w body = Some doc" and "extract_text doc = Inr v"
  shows "if truthy v then (r, fs', rest) = (case write_text w (argv w ! 1) v fs of
             (r2, fs2, evs2) \<Rightarrow> (r2, fs2, UrlOpen (build_request w d b k h) # evs2))
         else (r, fs', rest) = (Return (), fs, [UrlOpen (build_request w d b k h)])"
  using assms
  by (auto simp: call_and_write_def generate_commit_message_def prims Let_def
      split: prod.splits result.splits)

lemma tail_raise:
  assumes "call_and_write w d b k h fs = (r, fs', rest)"
    and "urlopen w (build_request w d b k h) = Response 200 body"
    and "body = None \<or> (\<exists>t. body = Some t \<and> (json_loads w t = None
           \<or> (\<exists>doc e. json_loads w t = Some doc \<and> extract_text doc = Inl e)))"
  shows "(\<exists>e. r = Raise e) \<and> fs' = fs \<and> rest = [UrlOpen (build_request w d b k h)]"
  using assms
  by (auto simp: call_and_write_def generate_commit_message_def prims Let_def)

lemma tail_not_200:
  assumes "call_and_write w d b k h fs = (r, fs', rest)"
    and "\<forall>body. urlopen w (build_request w d b k h) \<noteq> Response 200 body"
  shows "exit_status r = 1 \<and> fs' = fs
       \<and> filter is_truncate rest = [] \<and> filter is_write rest = []"
  using assms
  by (auto simp: call_and_write_def generate_commit_message_def prims Let_def
      split: http_result.splits option.splits if_splits)

lemma tail_truncate:
  assumes run: "call_and_write w d b k h fs = (r, fs', rest)"
    and tr: "filter is_truncate rest \<noteq> []"
  shows "writable w (argv w ! 1)
       \<and> (\<exists>body doc t. urlopen w (build_request w d b k h) = Response 200 (Some body)
              \<and> json_loads w body = Some doc \<and> extract_text doc = Inr (JStr t) \<and> t \<noteq> []
              \<and> filter is_truncate rest = [FileTruncate (argv w ! 1)]
              \<and> (case write_bytes w (argv w ! 1) t of
                    Encoded bs \<Rightarrow>
                      r = Return () \<and> fs' = fs(argv w ! 1 \<mapsto> bs)
                      \<and> filter is_write rest = [FileWrite (argv w ! 1) bs]
                  | WriteError e left \<Rightarrow>
                      r = Raise e \<and> fs' = fs(argv w ! 1 \<mapsto> left)
                      \<and> filter is_write rest = []))"
  using assms
  by (auto simp: call_and_write_def generate_commit_message_def write_text_def prims Let_def
      split: http_result.splits option.splits sum.splits if_splits json.splits
        write_outcome.splits)

lemma tail_no_truncate:
  assumes "call_and_write w d b k h fs = (r, fs', rest)" "filter is_truncate rest = []"
  shows "fs' = fs \<and> filter is_write rest = []"
  using assms
  by (auto simp: call_and_write_def generate_commit_message_def write_text_def prims Let_def
      split: http_result.splits option.splits sum.splits if_splits json.splits
        write_outcome.splits)

lemma main_run:
  obtains r fs' evs where "main w fs = (r, fs', evs)"
  by (cases "main w fs") auto

lemma main_called:
  assumes run: "main w fs = (r, fs', evs)" and ev: "UrlOpen req \<in> set evs"
  obtains d b k h pre more where "evs = pre @ UrlOpen req # more" "quiet pre"
    "filter is_urlopen more = []"
    "req = build_request w d b k h" "call_and_write w d b k h fs = (r, fs', UrlOpen req # more)"
proof -
  from main_shape run show ?thesis
  proof (cases rule: shapeE)
    case stopped
    with quiet_no [OF stopped(2) ev] show ?thesis by simp
  next
    case (called d b k h pre rest)
    from tail_events [OF called(4)] obtain more
      where rest: "rest = UrlOpen (build_request w d b k h) # more"
        and more: "filter is_urlopen more = []"
      by (elim exE conjE)
    have "UrlOpen req \<notin> set pre" using quiet_no [OF called(3)] by fastforce
    moreover have "UrlOpen req \<notin> set more"
      using more by (auto simp: filter_empty_conv)
    ultimately have "req = build_request w d b k h"
      using ev called(2) rest by auto
    with called rest more that show ?thesis by simp
  qed
qed

lemma getitem_str_iff: "getitem_str v k = Inr x \<longleftrightarrow> json_member k v = Some x"
  by (cases v) (auto split: option.splits)

lemma getitem_0_then_str:
  "(getitem_0 u = Inr x \<and> getitem_str x k = Inr y)
     \<longleftrightarrow> (json_first u = Some x \<and> json_member k x = Some y)"
proof (cases u)
  case (JArr xs)
  then show ?thesis by (cases xs) (simp_all add: getitem_str_iff)
next
  case (JStr t)
  then show ?thesis by (cases t) auto
qed (simp_all add: getitem_str_iff)

lemma sub_Inr: "sub r f = Inr v \<longleftrightarrow> (\<exists>u. r = Inr u \<and> f u = Inr v)"
  by (cases r) (simp_all add: sub_def)

lemma extract_text_iff: "extract_text doc = Inr v \<longleftrightarrow> text_path doc = Some v"
proof -
  have "extract_text doc = Inr v \<longleftrightarrow>
    (\<exists>u1 u2 u3 u4 u5. getitem_str doc (str ''candidates'') = Inr u1
       \<and> (getitem_0 u1 = Inr u2 \<and> getitem_str u2 (str ''content'') = Inr u3)
       \<and> getitem_str u3 (str ''parts'') = Inr u4
       \<and> (getitem_0 u4 = Inr u5 \<and> getitem_str u5 (str ''text'') = Inr v))"
    unfolding extract_text_def sub_Inr by blast
  also have "\<dots> \<longleftrightarrow>
    (\<exists>u1 u2 u3 u4 u5. getitem_str doc (str ''candidates'') = Inr u1
       \<and> (json_first u1 = Some u2 \<and> json_member (str ''content'') u2 = Some u3)
       \<and> getitem_str u3 (str ''parts'') = Inr u4
       \<and> (json_first u4 = Some u5 \<and> json_member (str ''text'') u5 = Some v))"
    unfolding getitem_0_then_str ..
  also have "\<dots> \<longleftrightarrow>
    (\<exists>u1 u2 u3 u4 u5. json_member (str ''candidates'') doc = Some u1
       \<and> (json_first u1 = Some u2 \<and> json_member (str ''content'') u2 = Some u3)
       \<and> json_member (str ''parts'') u3 = Some u4
       \<and> (json_first u4 = Some u5 \<and> json_member (str ''text'') u5 = Some v))"
    unfolding getitem_str_iff ..
  also have "\<dots> \<longleftrightarrow> text_path doc = Some v"
    unfolding text_path_def bind_eq_Some_conv by blast
  finally show ?thesis .
qed

lemma no_text_path: "text_path doc = None \<Longrightarrow> \<exists>e. extract_text doc = Inl e"
  using extract_text_iff [of doc] by (cases "extract_text doc") auto










lemma and_then_Return:
  "m fs = (Return x, fs1, e1) \<Longrightarrow>
   and_then m f fs = (case f x fs1 of (r, fs2, e2) \<Rightarrow> (r, fs2, e1 @ e2))"
  by (simp add: and_then_def)

lemma and_then_Exit: "m fs = (Exit n, fs1, e1) \<Longrightarrow> and_then m f fs = (Exit n, fs1, e1)"
  by (simp add: and_then_def)

lemma and_then_Raise: "m fs = (Raise e, fs1, e1) \<Longrightarrow> and_then m f fs = (Raise e, fs1, e1)"
  by (simp add: and_then_def)

lemma quiet_run:
  assumes "quiet_prog m"
  obtains r evs where "m fs = (r, fs, evs)" "quiet evs"
  using quiet_progD [OF assms] by (cases "m fs") blast

lemma git_found:
  "result_of (get_git_diff w fs) = Return x \<Longrightarrow> \<exists>c cs. which w (str ''git'') = Some (c # cs)"
  by (auto simp: get_git_diff_def prims result_of_def split: option.splits list.splits)

lemma branch_name_no_exit:
  "which w (str ''git'') = Some (c # cs) \<Longrightarrow> result_of (get_branch_name w fs) \<noteq> Exit n"
  by (auto simp: get_branch_name_def prims result_of_def split: proc_result.splits)

lemma missing_key_exits:
  assumes "config_key w = None \<or> config_key w = Some []"
    and "environ w KEY_NAME = None \<or> environ w KEY_NAME = Some []"
  shows "get_api_key w fs = (Exit 1, fs,
     [ConfigRead KEY_NAME, EnvGet KEY_NAME,
      Log ERROR (str ''Error: GEMINI_API_KEY not found.'') [],
      Log ERROR (str ''Please set the GEMINI_API_KEY in the script or as an environment variable.'') []])"
  using assms by (auto simp: get_api_key_def prims)

lemma hint_outcome:
  assumes "(if (if 2 < length (argv w) then argv w ! 2 else []) = str ''message''
      then and_then (read_text w (argv w ! 1)) (\<lambda>t. ret (Some (strip t)))
      else ret None) fs = (rh, fs1, eh)"
  shows "fs1 = fs \<and> quiet eh \<and> ((\<exists>um. rh = Return um) \<or> (\<exists>e. rh = Raise e))"
  using assms
  by (auto simp: read_text_def prims split: if_splits option.splits)

lemma missing_key_main:
  assumes "config_key w = None \<or> config_key w = Some []"
    and "environ w KEY_NAME = None \<or> environ w KEY_NAME = Some []"
    and "\<not> (2 < length (argv w) \<and> argv w ! 2 = str ''merge'')"
  shows "exit_status (result_of (main w fs)) = 1
       \<and> filter is_urlopen (events_of (main w fs)) = [] \<and> files_of (main w fs) = fs"
proof (cases "length (argv w) < 2")
  case True
  then show ?thesis by (simp add: main_def raise_def run_parts)
next
  case False
  note key = missing_key_exits [OF assms(1,2), of fs]
  define hintp where "hintp =
     (if (if 2 < length (argv w) then argv w ! 2 else []) = str ''message''
      then and_then (read_text w (argv w ! 1)) (\<lambda>t. ret (Some (strip t)))
      else ret None)"
  obtain rh fs1 eh where h: "hintp fs = (rh, fs1, eh)" by (cases "hintp fs")
  note ho = hint_outcome [OF h [unfolded hintp_def]]
  from ho have same: "fs1 = fs" by (elim conjE)
  from ho have q: "quiet eh" by (elim conjE)
  from ho have rh: "(\<exists>um. rh = Return um) \<or> (\<exists>e. rh = Raise e)" by (elim conjE)
  have src: "(if 2 < length (argv w) then argv w ! 2 else []) \<noteq> str ''merge''"
    using assms(3) by auto
  have unfolded: "main w fs =
     and_then hintp (\<lambda>user_message.
       and_then (get_api_key w) (\<lambda>api_key.
       and_then (get_git_diff w) (\<lambda>diff.
       and_then (get_branch_name w) (\<lambda>branch_name.
         if diff = [] then
           and_then (logger INFO (str ''No staged changes found. Aborting.'') [])
             (\<lambda>_. sys_exit 0)
         else
           and_then (logger INFO (str ''Generating commit message...'') []) (\<lambda>_.
             call_and_write w diff branch_name api_key user_message))))) fs"
    using False src unfolding main_def Let_def hintp_def call_and_write_def by simp
  from quiet_filter [OF q] have nourl: "filter is_urlopen eh = []" by simp
  from rh show ?thesis
  proof
    assume "\<exists>um. rh = Return um"
    then obtain um where "rh = Return um" ..
    with h same have h': "hintp fs = (Return um, fs, eh)" by simp
    show ?thesis
      unfolding unfolded
      by (simp add: and_then_Return [of hintp fs, OF h']
          and_then_Exit [of "get_api_key w" fs, OF key] run_parts nourl KEY_NAME_def)
  next
    assume "\<exists>e. rh = Raise e"
    then obtain e where "rh = Raise e" ..
    with h same have h': "hintp fs = (Raise e, fs, eh)" by simp
    show ?thesis
      unfolding unfolded
      by (simp add: and_then_Raise [of hintp fs, OF h'] run_parts nourl)
  qed
qed

lemma log_and_exit:
  "and_then (logger lvl msg args) (\<lambda>_. sys_exit n) fs = (Exit n, fs, [Log lvl msg args])"
  by (simp add: prims)

lemma hint_run:
  assumes "2 < length (argv w) \<and> argv w ! 2 = str ''message''
      \<longrightarrow> (\<exists>t. result_of (read_text w (argv w ! 1) fs) = Return t)"
  shows "\<exists>um eh.
    (if (if 2 < length (argv w) then argv w ! 2 else []) = str ''message''
      then and_then (read_text w (argv w ! 1)) (\<lambda>t. ret (Some (strip t)))
      else ret None) fs = (Return um, fs, eh) \<and> quiet eh"
proof (cases "2 < length (argv w) \<and> argv w ! 2 = str ''message''")
  case True
  with assms obtain t where "result_of (read_text w (argv w ! 1) fs) = Return t" by blast
  with True show ?thesis
    by (auto simp: read_text_def prims result_of_def split: option.splits)
next
  case False
  then show ?thesis by (auto simp: prims)
qed

lemma empty_diff_run:
  assumes len: "2 \<le> length (argv w)"
    and nomerge: "\<not> (2 < length (argv w) \<and> argv w ! 2 = (str ''merge''))"
    and hint: "2 < length (argv w) \<and> argv w ! 2 = str ''message''
      \<longrightarrow> (\<exists>t. result_of (read_text w (argv w ! 1) fs) = Return t)"
    and key: "result_of (get_api_key w fs) = Return k"
    and diff: "result_of (get_git_diff w fs) = Return []"
  obtains pre where "quiet pre"
    "main w fs = (case result_of (get_branch_name w fs) of
        Return b \<Rightarrow> (Exit 0, fs, pre @ [Log INFO (str ''No staged changes found. Aborting.'') []])
      | Exit n \<Rightarrow> (Exit n, fs, pre)
      | Raise e \<Rightarrow> (Raise e, fs, pre))"
proof -
  define hintp where "hintp =
     (if (if 2 < length (argv w) then argv w ! 2 else []) = (str ''message'')
      then and_then (read_text w (argv w ! 1)) (\<lambda>t. ret (Some (strip t)))
      else ret None)"
  from hint_run [of w fs, OF hint] obtain um eh where
    h: "hintp fs = (Return um, fs, eh)" and qh: "quiet eh"
    unfolding hintp_def by (elim exE conjE)
  obtain rk ek where k0: "get_api_key w fs = (rk, fs, ek)" and qk: "quiet ek"
    by (rule quiet_run [OF quiet_get_api_key])
  obtain rd ed where d0: "get_git_diff w fs = (rd, fs, ed)" and qd: "quiet ed"
    by (rule quiet_run [OF quiet_get_git_diff])
  obtain rb eb where b0: "get_branch_name w fs = (rb, fs, eb)" and qb: "quiet eb"
    by (rule quiet_run [OF quiet_get_branch_name])
  from key k0 have k: "get_api_key w fs = (Return k, fs, ek)" by (simp add: result_of_def)
  from diff d0 have d: "get_git_diff w fs = (Return [], fs, ed)" by (simp add: result_of_def)
  have src: "(if 2 < length (argv w) then argv w ! 2 else []) \<noteq> (str ''merge'')"
    using nomerge by auto
  have unfolded: "main w fs =
     and_then hintp (\<lambda>user_message.
       and_then (get_api_key w) (\<lambda>api_key.
       and_then (get_git_diff w) (\<lambda>diff.
       and_then (get_branch_name w) (\<lambda>branch_name.
         if diff = [] then
           and_then (logger INFO (str ''No staged changes found. Aborting.'') []) (\<lambda>_. sys_exit 0)
         else
           and_then (logger INFO (str ''Generating commit message...'') []) (\<lambda>_.
             call_and_write w diff branch_name api_key user_message))))) fs"
    using len src unfolding main_def Let_def hintp_def call_and_write_def by simp
  have run: "main w fs = (case rb of
        Return b \<Rightarrow> (Exit 0, fs, (eh @ ek @ ed @ eb) @ [Log INFO (str ''No staged changes found. Aborting.'') []])
      | Exit n \<Rightarrow> (Exit n, fs, eh @ ek @ ed @ eb)
      | Raise e \<Rightarrow> (Raise e, fs, eh @ ek @ ed @ eb))"
    unfolding unfolded
    by (cases rb)
      (simp_all add: and_then_Return [of hintp fs, OF h]
        and_then_Return [of "get_api_key w" fs, OF k]
        and_then_Return [of "get_git_diff w" fs, OF d] b0
        and_then_def [of "get_branch_name w"] log_and_exit)
  have q: "quiet (eh @ ek @ ed @ eb)" using qh qk qd qb by simp
  have rb: "result_of (get_branch_name w fs) = rb" by (simp add: b0 result_of_def)
  show ?thesis
    by (rule that [of "eh @ ek @ ed @ eb"]) (simp_all only: q run rb)
qed

lemma main_counts:
  assumes run: "main w fs = (r, fs', evs)"
  shows "length (filter is_write evs) \<le> 1 \<and> length (filter is_truncate evs) \<le> 1"
  using main_shape run
proof (cases rule: shapeE)
  case stopped
  with quiet_filter show ?thesis by simp
next
  case (called d b k h pre rest)
  from tail_events [OF called(4)] obtain more where
    "rest = UrlOpen (build_request w d b k h) # more" "length (filter is_write more) \<le> 1"
    "length (filter is_truncate more) \<le> 1"
    by (elim exE conjE)
  with called(2) quiet_filter [OF called(3)] show ?thesis by simp
qed

lemma main_no_truncate:
  assumes run: "main w fs = (r, fs', evs)" and nt: "filter is_truncate evs = []"
  shows "fs' = fs \<and> filter is_write evs = []"
  using main_shape run
proof (cases rule: shapeE)
  case stopped
  with quiet_filter show ?thesis by simp
next
  case (called d b k h pre rest)
  from nt called(2) have "filter is_truncate rest = []" by simp
  from tail_no_truncate [OF called(4) this] quiet_filter [OF called(3)] called(2)
  show ?thesis by simp
qed

lemma main_truncate:
  assumes run: "main w fs = (r, fs', evs)" and tr: "filter is_truncate evs \<noteq> []"
  shows "writable w (argv w ! 1)
       \<and> (\<exists>t. replied w evs t \<and> t \<noteq> []
              \<and> filter is_truncate evs = [FileTruncate (argv w ! 1)]
              \<and> (case write_bytes w (argv w ! 1) t of
                    Encoded bs \<Rightarrow>
                      r = Return () \<and> fs' = fs(argv w ! 1 \<mapsto> bs)
                      \<and> filter is_write evs = [FileWrite (argv w ! 1) bs]
                  | WriteError e left \<Rightarrow>
                      r = Raise e \<and> fs' = fs(argv w ! 1 \<mapsto> left)
                      \<and> filter is_write evs = []))"
  using main_shape run
proof (cases rule: shapeE)
  case stopped
  with quiet_filter tr show ?thesis by simp
next
  case (called d b k h pre rest)
  note qf = quiet_filter [OF called(3)]
  from tr called(2) qf have tr': "filter is_truncate rest \<noteq> []" by simp
  from tail_events [OF called(4)] obtain more where
    "rest = UrlOpen (build_request w d b k h) # more" by (elim exE conjE)
  with called(2) have ev: "UrlOpen (build_request w d b k h) \<in> set evs" by simp
  from tail_truncate [OF called(4) tr'] obtain body doc t where
    wr: "writable w (argv w ! 1)" and
    reply: "urlopen w (build_request w d b k h) = Response 200 (Some body)"
      "json_loads w body = Some doc" "extract_text doc = Inr (JStr t)" and
    t: "t \<noteq> []" and
    trunc: "filter is_truncate rest = [FileTruncate (argv w ! 1)]" and
    out: "case write_bytes w (argv w ! 1) t of
            Encoded bs \<Rightarrow>
              r = Return () \<and> fs' = fs(argv w ! 1 \<mapsto> bs)
              \<and> filter is_write rest = [FileWrite (argv w ! 1) bs]
          | WriteError e left \<Rightarrow>
              r = Raise e \<and> fs' = fs(argv w ! 1 \<mapsto> left)
              \<and> filter is_write rest = []"
    by (elim exE conjE)
  from ev reply have rep: "replied w evs t"
    unfolding replied_def by (intro exI conjI)
  have same: "filter is_truncate evs = filter is_truncate rest"
    "filter is_write evs = filter is_write rest"
    using called(2) qf by simp_all
  from rep t trunc out wr show ?thesis
    unfolding same by (intro conjI exI [of _ t])
qed

lemma write_text_events:
  "write_text w p v fs = (r, fs', evs) \<Longrightarrow>
     filter (\<lambda>e. is_write e \<or> is_truncate e) evs = evs"
  by (cases v) (auto simp: write_text_def split: if_splits write_outcome.splits)

lemma main_reply:
  assumes run: "main w fs = (r, fs', evs)" and ev: "UrlOpen req \<in> set evs"
    and "urlopen w req = Response 200 (Some body)"
    and "json_loads w body = Some doc" and "extract_text doc = Inr v"
  shows "if truthy v
         then \<exists>evs2. write_text w (argv w ! 1) v fs = (r, fs', evs2)
                \<and> filter is_write evs = filter is_write evs2
                \<and> filter is_truncate evs = filter is_truncate evs2
         else r = Return () \<and> fs' = fs
              \<and> filter is_write evs = [] \<and> filter is_truncate evs = []"
proof -
  obtain d b k h pre more where
    evs: "evs = pre @ UrlOpen req # more" and q: "quiet pre" and
    req: "req = build_request w d b k h" and
    tail: "call_and_write w d b k h fs = (r, fs', UrlOpen req # more)"
    by (rule main_called [OF run ev])
  note t = tail_reply [OF tail assms(3-5) [unfolded req]]
  note p = quiet_filter [OF q]
  show ?thesis
  proof (cases "truthy v")
    case True
    obtain r2 fs2 evs2 where wt: "write_text w (argv w ! 1) v fs = (r2, fs2, evs2)"
      by (cases "write_text w (argv w ! 1) v fs")
    from t True wt have "r = r2" "fs' = fs2" "more = evs2" by (simp_all add: req)
    with True evs p wt show ?thesis by simp
  next
    case False
    with t evs p req show ?thesis by simp
  qed
qed

lemma main_raise:
  assumes run: "main w fs = (r, fs', evs)" and ev: "UrlOpen req \<in> set evs"
    and "urlopen w req = Response 200 body"
    and "body = None \<or> (\<exists>t. body = Some t \<and> (json_loads w t = None
           \<or> (\<exists>doc e. json_loads w t = Some doc \<and> extract_text doc = Inl e)))"
  shows "(\<exists>e. r = Raise e) \<and> fs' = fs \<and> filter is_write evs = []
       \<and> filter is_truncate evs = []"
proof -
  obtain d b k h pre more where
    evs: "evs = pre @ UrlOpen req # more" and q: "quiet pre" and
    req: "req = build_request w d b k h" and
    tail: "call_and_write w d b k h fs = (r, fs', UrlOpen req # more)"
    by (rule main_called [OF run ev])
  note t = tail_raise [OF tail assms(3) [unfolded req] assms(4)]
  note p = quiet_filter [OF q]
  from t evs p show ?thesis by simp
qed

lemma main_not_200:
  assumes run: "main w fs = (r, fs', evs)" and ev: "UrlOpen req \<in> set evs"
    and "\<forall>body. urlopen w req \<noteq> Response 200 body"
  shows "exit_status r = 1 \<and> fs' = fs \<and> filter is_write evs = []
       \<and> filter is_truncate evs = []"
proof -
  obtain d b k h pre more where
    evs: "evs = pre @ UrlOpen req # more" and q: "quiet pre" and
    req: "req = build_request w d b k h" and
    tail: "call_and_write w d b k h fs = (r, fs', UrlOpen req # more)"
    by (rule main_called [OF run ev])
  note t = tail_not_200 [OF tail assms(3) [unfolded req]]
  note p = quiet_filter [OF q]
  from t evs p show ?thesis by simp
qed

lemmas eval_defs = world_defs hook_defs prims Let_def strip_def is_space_def
  char_of_def bit_Suc_0_iff run_parts build_request_def

lemma base_run:
  "main base_world base_files
     = (Return (), base_files(str ''COMMIT_EDITMSG'' \<mapsto> ''Add README''),
        [ConfigRead KEY_NAME, EnvGet KEY_NAME, Which (str ''git''),
         Subprocess [str ''/usr/bin/git'', str ''diff'', str ''--staged''], Which (str ''git''),
         Subprocess [str ''/usr/bin/git'', str ''rev-parse'', str ''--abbrev-ref'', str ''HEAD''],
         Log INFO (str ''Generating commit message...'') [],
         UrlOpen base_request, FileTruncate (str ''COMMIT_EDITMSG''),
         FileWrite (str ''COMMIT_EDITMSG'') ''Add README''])"
  by (simp add: eval_defs)

lemma base_reply:
  "urlopen base_world base_request = Response 200 (Some (str ''reply''))"
  "json_loads base_world (str ''reply'') = Some api_reply"
  "extract_text api_reply = Inr (JStr (str ''Add README''))"
  "writable base_world (argv base_world ! 1)"
  "argv base_world ! 1 = str ''COMMIT_EDITMSG''"
  "write_bytes base_world (str ''COMMIT_EDITMSG'') (str ''Add README'') = Encoded ''Add README''"
  by (simp_all add: eval_defs)

lemma extract_reply_with [simp]: "extract_text (reply_with t) = Inr (JStr t)"
  by (simp add: reply_with_def extract_text_def sub_def)

lemma rate_limited_run:
  "result_of (main rate_limited_world base_files) = Exit 1"
  by (simp add: eval_defs)

lemma rate_limited_events:
  "UrlOpen base_request \<in> set (events_of (main rate_limited_world base_files))"
  by (simp add: eval_defs)

lemma no_key_events:
  "filter is_urlopen (events_of (main no_key_world base_files)) = []"
  by (simp add: eval_defs)

lemma empty_text_run:
  "UrlOpen base_request \<in> set (events_of (main empty_text_world base_files))"
  by (simp add: eval_defs)

lemma empty_text_reply:
  "urlopen empty_text_world base_request = Response 200 (Some (str ''reply''))"
  "json_loads empty_text_world (str ''reply'') = Some (reply_with [])"
  by (simp_all add: empty_text_world_def base_world_def)

lemma cafe_run:
  "main cafe_world base_files
     = (Raise UnicodeEncodeError, base_files(str ''COMMIT_EDITMSG'' \<mapsto> []),
        [ConfigRead KEY_NAME, EnvGet KEY_NAME, Which (str ''git''),
         Subprocess [str ''/usr/bin/git'', str ''diff'', str ''--staged''], Which (str ''git''),
         Subprocess [str ''/usr/bin/git'', str ''rev-parse'', str ''--abbrev-ref'', str ''HEAD''],
         Log INFO (str ''Generating commit message...'') [],
         UrlOpen base_request, FileTruncate (str ''COMMIT_EDITMSG'')])"
  by (simp add: eval_defs)

lemma crlf_run:
  "files_of (main crlf_world base_files) (str ''COMMIT_EDITMSG'')
     = Some (''Add'' @ [CHR 0x0D, CHR 0x0A] @ ''README'')"
  "result_of (main crlf_world base_files) = Return ()"
  by (simp_all add: eval_defs)

lemma generate_raise:
  assumes "urlopen w (build_request w d b k h) = Response 200 (Some body)"
    and "json_loads w body = None
       \<or> (\<exists>doc e. json_loads w body = Some doc \<and> extract_text doc = Inl e)"
  shows "\<exists>e. generate_commit_message w d b k h fs
           = (Raise e, fs, [UrlOpen (build_request w d b k h)])"
  using assms by (auto simp: generate_commit_message_def prims Let_def)

lemma not_json_run:
  "UrlOpen base_request \<in> set (events_of (main not_json_world base_files))"
  "UrlOpen base_request \<in> set (events_of (main no_candidate_world base_files))"
  by (simp_all add: eval_defs)

lemma not_json_reply:
  "urlopen not_json_world base_request = Response 200 (Some (str ''<html>''))"
  "json_loads not_json_world (str ''<html>'') = None"
  "urlopen no_candidate_world base_request = Response 200 (Some (str ''reply''))"
  "json_loads no_candidate_world (str ''reply'') = Some (JObj [(str ''candidates'', JArr [])])"
  "text_path (JObj [(str ''candidates'', JArr [])]) = None"
  by (simp_all add: not_json_world_def no_candidate_world_def base_world_def text_path_def)









section \<open>The hook: merge commits\<close>

text \<open>
  Claim C6. When the second command-line argument is \<open>merge\<close>, the run consists of one
  log line and \<open>sys.exit(0)\<close>: the exit status is 0, the files are unchanged, and the
  run has no other event, so the configuration and the environment are not read for a
  key, \<open>git\<close> is neither located nor run, no request is sent and no file is read or
  written.
\<close>

theorem C6_merge_exits_at_once:
  assumes "2 < length (argv w)" and "argv w ! 2 = str ''merge''"
  shows "main w fs = (Exit 0, fs, [Log INFO (str ''Merge commit detected. Skipping.'') []])"
  using assms by (simp add: main_def prims)

theorem C6_witness:
  "main merge_world base_files
     = (Exit 0, base_files, [Log INFO (str ''Merge commit detected. Skipping.'') []])
   \<and> exit_status (result_of (main merge_world base_files)) = 0"
  using C6_merge_exits_at_once [of merge_world base_files]
  by (simp add: merge_world_def base_world_def result_of_def)

section \<open>The installer\<close>

text \<open>
  Claim C7. Run in a directory that has no \<open>.git\<close> entry, the installer logs the error
  and exits with status 1; the check comes first, so the file system is left exactly
  as it was and no hook file is created.
\<close>

theorem C7_installer_outside_repository:
  assumes "fs GIT_DIR = None"
  shows "install_main iw fs
           = (Exit 1, fs, [Log ERROR (str ''Error: This is not a git repository.'') []])"
  using assms by (simp add: install_main_def)

theorem C7_witness:
  "install_main base_install Map.empty
     = (Exit 1, Map.empty, [Log ERROR (str ''Error: This is not a git repository.'') []])"
  using C7_installer_outside_repository [of Map.empty base_install] by simp



section \<open>The hook: the API key\<close>

text \<open>
  Claim C10. \<open>get_api_key\<close> treats an empty key as no key. A configured key that is
  the empty string gives the same run as no configured key, so the environment
  variable is consulted; an environment variable set to the empty string is fatal
  (exit status 1) like a missing one; a non-empty variable is returned when the
  configuration has no key; and the empty string is never returned.
\<close>

theorem C10_empty_key_is_absent:
  "(config_key w = Some [] \<longrightarrow> get_api_key w = get_api_key (w\<lparr>config_key := None\<rparr>))
   \<and> ((config_key w = None \<or> config_key w = Some []) \<and> environ w KEY_NAME = Some []
        \<longrightarrow> result_of (get_api_key w fs) = Exit 1)
   \<and> ((config_key w = None \<or> config_key w = Some []) \<and> environ w KEY_NAME = Some (c # cs)
        \<longrightarrow> result_of (get_api_key w fs) = Return (c # cs))
   \<and> result_of (get_api_key w fs) \<noteq> Return []"
  by (auto simp: get_api_key_def prims result_of_def split: option.splits list.splits)

theorem C10_witness:
  "get_api_key empty_key_world = get_api_key (empty_key_world\<lparr>config_key := None\<rparr>)
   \<and> result_of (get_api_key empty_key_world base_files) = Exit 1
   \<and> result_of (get_api_key empty_config_world base_files) = Return (str ''k'')
   \<and> result_of (get_api_key empty_key_world base_files) \<noteq> Return []"
proof -
  have cfg: "config_key empty_key_world = Some []" "config_key empty_config_world = Some []"
    by (simp_all add: empty_key_world_def empty_config_world_def)
  have env: "environ empty_key_world KEY_NAME = Some []"
    "environ empty_config_world KEY_NAME = Some (of_char (CHR ''k'') # [])"
    by (simp_all add: empty_key_world_def empty_config_world_def base_world_def KEY_NAME_def)
  note a = C10_empty_key_is_absent [of empty_key_world base_files]
  note b = C10_empty_key_is_absent [of empty_config_world base_files "of_char (CHR ''k'')" "[]"]
  note 1 = a [THEN conjunct1, rule_format, OF cfg(1)]
  note 2 = a [THEN conjunct2, THEN conjunct1, rule_format,
      OF conjI [OF disjI2 [OF cfg(1)] env(1)]]
  note 3 = b [THEN conjunct2, THEN conjunct2, THEN conjunct1, rule_format,
      OF conjI [OF disjI2 [OF cfg(2)] env(2)]]
  note 4 = a [THEN conjunct2, THEN conjunct2, THEN conjunct2]
  have 3: "result_of (get_api_key empty_config_world base_files) = Return (str ''k'')"
    using 3 by simp
  from 1 2 3 4 show ?thesis by (intro conjI)
qed

text \<open>
  Claim C4 says that with both keys unset the process ends with a non-zero status, and
  that otherwise \<open>get_api_key\<close> returns a key. A merge commit with both keys unset
  ends with status 0, because \<open>main\<close> leaves before it looks for a key; and an
  environment variable that is set to the empty string is set, yet \<open>get_api_key\<close>
  exits.
\<close>

theorem C4_counterexample:
  "config_key merge_world = None \<and> environ merge_world KEY_NAME = None
   \<and> exit_status (result_of (main merge_world base_files)) = 0
   \<and> environ empty_env_world KEY_NAME = Some []
   \<and> result_of (get_api_key empty_env_world base_files) = Exit 1"
  by (simp add: merge_world_def empty_env_world_def base_world_def KEY_NAME_def
      main_def get_api_key_def prims result_of_def)

text \<open>
  Claim C4, amended. When the configured key is unset or empty and the environment
  variable is unset or empty, \<open>get_api_key\<close> exits with status 1 without a request,
  and every run of \<open>main\<close> that is not for a merge commit ends with status 1, sends no
  request and changes no file. In every other case \<open>get_api_key\<close> returns a
  non-empty key without exiting.
\<close>

theorem C4_missing_key_is_fatal:
  "((config_key w = None \<or> config_key w = Some [])
      \<and> (environ w KEY_NAME = None \<or> environ w KEY_NAME = Some []) \<longrightarrow>
        result_of (get_api_key w fs) = Exit 1
      \<and> filter is_urlopen (events_of (get_api_key w fs)) = []
      \<and> (\<not> (2 < length (argv w) \<and> argv w ! 2 = str ''merge'') \<longrightarrow>
           exit_status (result_of (main w fs)) = 1
         \<and> filter is_urlopen (events_of (main w fs)) = []
         \<and> files_of (main w fs) = fs))
   \<and> (\<not> ((config_key w = None \<or> config_key w = Some [])
           \<and> (environ w KEY_NAME = None \<or> environ w KEY_NAME = Some [])) \<longrightarrow>
        (\<exists>k. k \<noteq> [] \<and> result_of (get_api_key w fs) = Return k))"
proof (intro conjI impI)
  assume "(config_key w = None \<or> config_key w = Some [])
      \<and> (environ w KEY_NAME = None \<or> environ w KEY_NAME = Some [])"
  then have c: "config_key w = None \<or> config_key w = Some []"
    and e: "environ w KEY_NAME = None \<or> environ w KEY_NAME = Some []" by simp_all
  show "result_of (get_api_key w fs) = Exit 1"
    by (simp add: missing_key_exits [OF c e] result_of_def)
  show "filter is_urlopen (events_of (get_api_key w fs)) = []"
    by (simp add: missing_key_exits [OF c e] events_of_def)
  assume m: "\<not> (2 < length (argv w) \<and> argv w ! 2 = str ''merge'')"
  from missing_key_main [OF c e m, of fs]
  show "exit_status (result_of (main w fs)) = 1"
    "filter is_urlopen (events_of (main w fs)) = []" "files_of (main w fs) = fs"
    by simp_all
next
  assume "\<not> ((config_key w = None \<or> config_key w = Some [])
           \<and> (environ w KEY_NAME = None \<or> environ w KEY_NAME = Some []))"
  then show "\<exists>k. k \<noteq> [] \<and> result_of (get_api_key w fs) = Return k"
    by (auto simp: get_api_key_def prims result_of_def split: option.splits list.splits)
qed

theorem C4_witness:
  "result_of (get_api_key no_key_world base_files) = Exit 1
   \<and> exit_status (result_of (main no_key_world base_files)) = 1
   \<and> filter is_urlopen (events_of (main no_key_world base_files)) = []
   \<and> files_of (main no_key_world base_files) = base_files
   \<and> (\<exists>k. k \<noteq> [] \<and> result_of (get_api_key base_world base_files) = Return k)"
proof -
  have a: "config_key no_key_world = None" "environ no_key_world KEY_NAME = None"
    "\<not> (2 < length (argv no_key_world) \<and> argv no_key_world ! 2 = str ''merge'')"
    by (simp_all add: no_key_world_def base_world_def)
  have b: "environ base_world KEY_NAME = Some (str ''k'')"
    by (simp add: base_world_def KEY_NAME_def)
  from C4_missing_key_is_fatal [of no_key_world base_files]
    C4_missing_key_is_fatal [of base_world base_files] a b
  show ?thesis by simp
qed

section \<open>The hook: the branch name\<close>

text \<open>
  Claim C3 says that \<open>get_branch_name\<close> never terminates the process, also when
  \<open>git\<close> is not on the PATH. The code has its own guard for that case and calls
  \<open>sys.exit(1)\<close>; and it catches \<open>CalledProcessError\<close> only, so any other exception
  of the subprocess call (here the output is not valid UTF-8) propagates.
\<close>

theorem C3_counterexample:
  "which no_git_world (str ''git'') = None
   \<and> result_of (get_branch_name no_git_world base_files) = Exit 1
   \<and> result_of (get_branch_name undecodable_branch_world base_files) = Raise UnicodeDecodeError"
  by (simp add: no_git_world_def undecodable_branch_world_def base_world_def
      get_branch_name_def prims result_of_def)

text \<open>
  Claim C3, amended. With a \<open>git\<close> executable on the PATH, \<open>get_branch_name\<close>
  returns the stripped output of \<open>git rev-parse --abbrev-ref HEAD\<close> when the command
  succeeds and the empty string when it fails with \<open>CalledProcessError\<close>, without
  exiting; another exception of the call propagates. Without \<open>git\<close> on the PATH it
  logs the error and exits with status 1. It never changes a file.
\<close>

theorem C3_branch_name_outcomes:
  "(which w (str ''git'') = Some g \<and> g \<noteq> [] \<longrightarrow>
      result_of (get_branch_name w fs)
        = (case check_output w [g, str ''rev-parse'', str ''--abbrev-ref'', str ''HEAD''] of
             Stdout out \<Rightarrow> Return (strip out)
           | CalledProcessError \<Rightarrow> Return []
           | ProcException e \<Rightarrow> Raise e))
   \<and> (which w (str ''git'') = None \<or> which w (str ''git'') = Some [] \<longrightarrow>
        result_of (get_branch_name w fs) = Exit 1
      \<and> events_of (get_branch_name w fs)
          = [Which (str ''git''), Log ERROR (str ''git executable not found.'') []])
   \<and> files_of (get_branch_name w fs) = fs"
  by (auto simp: get_branch_name_def prims run_parts
      split: option.splits list.splits proc_result.splits)

theorem C3_witness:
  "result_of (get_branch_name base_world base_files) = Return (str ''main'')
   \<and> result_of (get_branch_name nothing_staged_world base_files) = Return (str ''main'')
   \<and> result_of (get_branch_name no_git_world base_files) = Exit 1
   \<and> files_of (get_branch_name base_world base_files) = base_files"
proof -
  have git: "which base_world (str ''git'') = Some (str ''/usr/bin/git'')"
    "which nothing_staged_world (str ''git'') = Some (str ''/usr/bin/git'')"
    "which no_git_world (str ''git'') = None"
    by (simp_all add: base_world_def nothing_staged_world_def no_git_world_def)
  have out: "check_output base_world [str ''/usr/bin/git'', str ''rev-parse'', str ''--abbrev-ref'', str ''HEAD'']
      = Stdout (str ''main'' @ [10])"
    "check_output nothing_staged_world
       [str ''/usr/bin/git'', str ''rev-parse'', str ''--abbrev-ref'', str ''HEAD'']
      = Stdout (str ''main'' @ [10])"
    by (simp_all add: base_world_def nothing_staged_world_def)
  have strip: "strip (str ''main'' @ [10]) = str ''main''"
    by (simp add: strip_def is_space_def)
  from C3_branch_name_outcomes [of base_world "str ''/usr/bin/git''" base_files]
    C3_branch_name_outcomes [of nothing_staged_world "str ''/usr/bin/git''" base_files]
    C3_branch_name_outcomes [of no_git_world "str ''/usr/bin/git''" base_files]
    git out strip
  show ?thesis by simp
qed

section \<open>The hook: an empty diff\<close>

text \<open>
  Claim C1 says that a run that reaches the diff fetch and finds the staged diff empty
  exits with status 0. \<open>main\<close> fetches the branch name after the diff and before it
  tests the diff, and \<open>get_branch_name\<close> catches \<open>CalledProcessError\<close> only: here
  nothing is staged and the output of \<open>git rev-parse\<close> cannot be decoded, so the
  exception propagates and the process ends with status 1.
\<close>

theorem C1_counterexample:
  "config_key undecodable_branch_world = None
   \<and> result_of (get_api_key undecodable_branch_world base_files) = Return (str ''k'')
   \<and> result_of (get_git_diff undecodable_branch_world base_files) = Return []
   \<and> exit_status (result_of (main undecodable_branch_world base_files)) = 1"
  by (simp add: undecodable_branch_world_def base_world_def base_files_def KEY_NAME_def
      main_def get_api_key_def get_git_diff_def get_branch_name_def prims result_of_def)

text \<open>
  Claim C1, amended. For a run that is not for a merge commit, reaches the diff fetch
  (a file argument is given, the hint file is read and decoded when the source is
  \<open>message\<close>, a key is found) and finds the staged diff empty: the commit-message
  file, like every file, keeps its content and nothing is written; the process exits
  with status 0 when the branch lookup that follows returns; an exception of the
  branch lookup propagates; and the branch lookup does not exit, since \<open>git\<close> was
  found for the diff.
\<close>

theorem C1_empty_diff_exits_0:
  assumes "2 \<le> length (argv w)"
    and "\<not> (2 < length (argv w) \<and> argv w ! 2 = str ''merge'')"
    and "2 < length (argv w) \<and> argv w ! 2 = str ''message''
      \<longrightarrow> (\<exists>t. result_of (read_text w (argv w ! 1) fs) = Return t)"
    and "result_of (get_api_key w fs) = Return k"
    and "result_of (get_git_diff w fs) = Return []"
  shows "files_of (main w fs) = fs
       \<and> filter is_write (events_of (main w fs)) = []
       \<and> (\<forall>b. result_of (get_branch_name w fs) = Return b \<longrightarrow> result_of (main w fs) = Exit 0)
       \<and> (\<forall>e. result_of (get_branch_name w fs) = Raise e \<longrightarrow> result_of (main w fs) = Raise e)
       \<and> (\<forall>n. result_of (get_branch_name w fs) \<noteq> Exit n)"
proof -
  from empty_diff_run [OF assms] obtain pre where q: "quiet pre" and
    run: "main w fs = (case result_of (get_branch_name w fs) of
        Return b \<Rightarrow> (Exit 0, fs, pre @ [Log INFO (str ''No staged changes found. Aborting.'') []])
      | Exit n \<Rightarrow> (Exit n, fs, pre)
      | Raise e \<Rightarrow> (Raise e, fs, pre))" .
  from git_found [OF assms(5)] obtain c cs where "which w (str ''git'') = Some (c # cs)" by blast
  then have noexit: "\<forall>n. result_of (get_branch_name w fs) \<noteq> Exit n"
    using branch_name_no_exit by blast
  from quiet_filter [OF q] have w: "filter is_write pre = []" by simp
  show ?thesis
    using noexit w unfolding run files_of_def events_of_def
    by (cases "result_of (get_branch_name w fs)") (simp_all add: result_of_def)
qed

theorem C1_witness:
  "files_of (main nothing_staged_world base_files) = base_files
   \<and> filter is_write (events_of (main nothing_staged_world base_files)) = []
   \<and> result_of (main nothing_staged_world base_files) = Exit 0"
proof -
  have a: "2 \<le> length (argv nothing_staged_world)"
    "\<not> (2 < length (argv nothing_staged_world) \<and> argv nothing_staged_world ! 2 = str ''merge'')"
    "2 < length (argv nothing_staged_world) \<and> argv nothing_staged_world ! 2 = str ''message''
       \<longrightarrow> (\<exists>t. result_of (read_text nothing_staged_world (argv nothing_staged_world ! 1)
                  base_files) = Return t)"
    by (simp_all add: nothing_staged_world_def base_world_def)
  have k: "result_of (get_api_key nothing_staged_world base_files) = Return (str ''k'')"
    by (simp add: nothing_staged_world_def base_world_def get_api_key_def prims KEY_NAME_def
        result_of_def)
  have d: "result_of (get_git_diff nothing_staged_world base_files) = Return []"
    by (simp add: nothing_staged_world_def base_world_def get_git_diff_def prims result_of_def)
  have b: "result_of (get_branch_name nothing_staged_world base_files) = Return (str ''main'')"
    by (simp add: nothing_staged_world_def base_world_def get_branch_name_def prims
        result_of_def strip_def is_space_def)
  from C1_empty_diff_exits_0 [OF a k d] b show ?thesis by blast
qed

section \<open>The hook: writing the message\<close>

text \<open>
  Claim C5 says that for every string \<open>S\<close> that the API client returns on the success
  path, the commit-message file ends up holding \<open>S\<close> byte for byte.
  \<open>Path.write_text\<close> opens the file in text mode with the encoding of the locale: the
  file is truncated first and \<open>S\<close> is encoded afterwards. Under an ASCII locale the
  message \<open>cafe\<close> with an acute accent (code point 233) cannot be encoded: the run ends with
  \<open>UnicodeEncodeError\<close> and the file is empty. Where the text layer translates
  newlines, a message of two lines is stored with a carriage return that \<open>S\<close> does
  not have.
\<close>

theorem C5_counterexample:
  "urlopen cafe_world base_request = Response 200 (Some (str ''reply''))
   \<and> json_loads cafe_world (str ''reply'') = Some (reply_with cafe)
   \<and> extract_text (reply_with cafe) = Inr (JStr cafe)
   \<and> cafe = [99, 97, 102, 233]
   \<and> writable cafe_world (str ''COMMIT_EDITMSG'')
   \<and> result_of (main cafe_world base_files) = Raise UnicodeEncodeError
   \<and> files_of (main cafe_world base_files) (str ''COMMIT_EDITMSG'') = Some []
   \<and> json_loads crlf_world (str ''reply'') = Some (reply_with two_lines)
   \<and> extract_text (reply_with two_lines) = Inr (JStr two_lines)
   \<and> length two_lines = 10
   \<and> result_of (main crlf_world base_files) = Return ()
   \<and> files_of (main crlf_world base_files) (str ''COMMIT_EDITMSG'')
       = Some (''Add'' @ [CHR 0x0D, CHR 0x0A] @ ''README'')"
proof -
  have 1: "urlopen cafe_world base_request = Response 200 (Some (str ''reply''))"
    "json_loads cafe_world (str ''reply'') = Some (reply_with cafe)"
    "writable cafe_world (str ''COMMIT_EDITMSG'')"
    "json_loads crlf_world (str ''reply'') = Some (reply_with two_lines)"
    by (simp_all add: cafe_world_def crlf_world_def base_world_def)
  have 2: "cafe = [99, 97, 102, 233]" "length two_lines = 10"
    by (simp_all add: cafe_def two_lines_def)
  have 3: "result_of (main cafe_world base_files) = Raise UnicodeEncodeError"
    "files_of (main cafe_world base_files) (str ''COMMIT_EDITMSG'') = Some []"
    by (simp_all add: cafe_run run_parts)
  from 1 2 3 crlf_run extract_reply_with [of cafe] extract_reply_with [of two_lines]
  show ?thesis by (intro conjI)
qed

text \<open>
  Claim C5, amended. On the path where the request was sent, the API answered with
  status 200 and a document whose \<open>candidates[0].content.parts[0].text\<close> is the
  non-empty string \<open>S\<close>, the commit-message file can be opened for writing and the
  text layer encodes \<open>S\<close> as the bytes \<open>bs\<close>: the run returns normally, its only
  write is \<open>bs\<close> to the commit-message file, and the file then holds exactly \<open>bs\<close>,
  the encoding of \<open>S\<close> itself: the program trims, prefixes and appends nothing. All
  other files are unchanged.
\<close>

theorem C5_message_written_verbatim:
  assumes "UrlOpen req \<in> set (events_of (main w fs))"
    and "urlopen w req = Response 200 (Some body)"
    and "json_loads w body = Some doc"
    and "extract_text doc = Inr (JStr S)"
    and "S \<noteq> []"
    and "writable w (argv w ! 1)"
    and "write_bytes w (argv w ! 1) S = Encoded bs"
  shows "files_of (main w fs) = fs(argv w ! 1 \<mapsto> bs)
       \<and> files_of (main w fs) (argv w ! 1) = Some bs
       \<and> result_of (main w fs) = Return ()
       \<and> filter is_write (events_of (main w fs)) = [FileWrite (argv w ! 1) bs]"
proof -
  obtain r fs' evs where run: "main w fs = (r, fs', evs)" by (rule main_run)
  from assms(1) run have ev: "UrlOpen req \<in> set evs" by (simp add: events_of_def)
  from main_reply [OF run ev assms(2-4)] assms(5-7)
  have "r = Return ()" "fs' = fs(argv w ! 1 \<mapsto> bs)"
    "filter is_write evs = [FileWrite (argv w ! 1) bs]"
    by (auto simp: write_text_def)
  then show ?thesis by (simp add: run run_parts)
qed

theorem C5_witness:
  "files_of (main base_world base_files) (str ''COMMIT_EDITMSG'') = Some ''Add README''
   \<and> result_of (main base_world base_files) = Return ()"
proof -
  have ev: "UrlOpen base_request \<in> set (events_of (main base_world base_files))"
    by (simp add: base_run events_of_def)
  have ne: "str ''Add README'' \<noteq> []" by simp
  note th = C5_message_written_verbatim [OF ev base_reply(1-3) ne base_reply(4)
      base_reply(6) [folded base_reply(5)]]
  from th have a: "files_of (main base_world base_files) (argv base_world ! 1)
      = Some ''Add README''" by (elim conjE)
  from th have b: "result_of (main base_world base_files) = Return ()" by (elim conjE)
  from a b show ?thesis unfolding base_reply(5) by (intro conjI)
qed

text \<open>
  Claim C2 says that on every path that ends in a non-zero exit the commit-message
  file keeps its original content. The write itself can fail: \<open>Path.write_text\<close>
  truncates the file when it opens it and encodes the message afterwards, and nothing
  catches the exception. Here the file held \<open>draft\<close>, the message cannot be encoded
  under the locale, the exit status is 1 and the file is empty.
\<close>

theorem C2_counterexample:
  "base_files (str ''COMMIT_EDITMSG'') = Some ''draft''
   \<and> result_of (main cafe_world base_files) = Raise UnicodeEncodeError
   \<and> exit_status (result_of (main cafe_world base_files)) = 1
   \<and> files_of (main cafe_world base_files) (str ''COMMIT_EDITMSG'') = Some []"
proof -
  have 1: "base_files (str ''COMMIT_EDITMSG'') = Some ''draft''"
    by (simp add: base_files_def)
  have 2: "result_of (main cafe_world base_files) = Raise UnicodeEncodeError"
    "exit_status (result_of (main cafe_world base_files)) = 1"
    "files_of (main cafe_world base_files) (str ''COMMIT_EDITMSG'') = Some []"
    by (simp_all add: cafe_run run_parts)
  from 1 2 show ?thesis by (intro conjI)
qed

text \<open>
  Claim C2, amended. In every run of \<open>main\<close>: the commit-message file is opened for
  writing at most once and written at most once; a write happens only in a run that
  sent the request and got status 200 with a document whose text is a non-empty
  string, it writes the encoding of that string to the commit-message file, and the
  run then returns normally; the file is opened for writing only in such a run, and
  when the write then fails the exception propagates and the file holds what the
  failed write left in it; a run that does not open the file for writing leaves every
  file as it was; a run that ends with a non-zero exit status completes no write and
  leaves every file other than the commit-message file as it was; a run that sends no
  request (no file argument, missing key, missing \<open>git\<close>, an empty diff), or whose
  request is answered with a status other than 200 or fails with \<open>URLError\<close>, leaves
  every file as it was; and so does a run in which the API returned a value that is
  not truthy (an empty string, \<open>None\<close>), which returns normally.
\<close>

theorem C2_file_written_only_on_success:
  "length (filter is_truncate (events_of (main w fs))) \<le> 1
   \<and> length (filter is_write (events_of (main w fs))) \<le> 1
   \<and> (\<forall>p bs. FileWrite p bs \<in> set (events_of (main w fs)) \<longrightarrow>
          p = argv w ! 1 \<and> result_of (main w fs) = Return ()
        \<and> files_of (main w fs) = fs(p \<mapsto> bs)
        \<and> (\<exists>t. t \<noteq> [] \<and> replied w (events_of (main w fs)) t
               \<and> write_bytes w p t = Encoded bs))
   \<and> (\<forall>p. FileTruncate p \<in> set (events_of (main w fs)) \<longrightarrow>
          p = argv w ! 1 \<and> writable w p
        \<and> (\<exists>t. t \<noteq> [] \<and> replied w (events_of (main w fs)) t
               \<and> (case write_bytes w p t of
                     Encoded bs \<Rightarrow>
                       result_of (main w fs) = Return ()
                       \<and> files_of (main w fs) = fs(p \<mapsto> bs)
                   | WriteError e left \<Rightarrow>
                       result_of (main w fs) = Raise e
                       \<and> files_of (main w fs) = fs(p \<mapsto> left))))
   \<and> (filter is_truncate (events_of (main w fs)) = [] \<longrightarrow>
          files_of (main w fs) = fs \<and> filter is_write (events_of (main w fs)) = [])
   \<and> (exit_status (result_of (main w fs)) \<noteq> 0 \<longrightarrow>
          filter is_write (events_of (main w fs)) = []
        \<and> (\<forall>q. q \<noteq> argv w ! 1 \<longrightarrow> files_of (main w fs) q = fs q))
   \<and> (filter is_urlopen (events_of (main w fs)) = [] \<longrightarrow> files_of (main w fs) = fs)
   \<and> (\<forall>req. UrlOpen req \<in> set (events_of (main w fs))
          \<and> (\<forall>body. urlopen w req \<noteq> Response 200 body) \<longrightarrow>
          exit_status (result_of (main w fs)) = 1 \<and> files_of (main w fs) = fs
        \<and> filter is_truncate (events_of (main w fs)) = [])
   \<and> (\<forall>req body doc v. UrlOpen req \<in> set (events_of (main w fs))
          \<and> urlopen w req = Response 200 (Some body)
          \<and> json_loads w body = Some doc \<and> extract_text doc = Inr v \<and> \<not> truthy v \<longrightarrow>
          result_of (main w fs) = Return () \<and> files_of (main w fs) = fs
        \<and> filter is_write (events_of (main w fs)) = []
        \<and> filter is_truncate (events_of (main w fs)) = [])"
proof -
  obtain r fs' evs where run: "main w fs = (r, fs', evs)" by (rule main_run)
  note cnt = main_counts [OF run]
  have tr: "writable w (argv w ! 1)
       \<and> (\<exists>t. replied w evs t \<and> t \<noteq> []
              \<and> filter is_truncate evs = [FileTruncate (argv w ! 1)]
              \<and> (case write_bytes w (argv w ! 1) t of
                    Encoded bs \<Rightarrow>
                      r = Return () \<and> fs' = fs(argv w ! 1 \<mapsto> bs)
                      \<and> filter is_write evs = [FileWrite (argv w ! 1) bs]
                  | WriteError e left \<Rightarrow>
                      r = Raise e \<and> fs' = fs(argv w ! 1 \<mapsto> left)
                      \<and> filter is_write evs = []))"
    if "filter is_truncate evs \<noteq> []"
    using main_truncate [OF run that] .
  have nt: "fs' = fs \<and> filter is_write evs = []" if "filter is_truncate evs = []"
    using main_no_truncate [OF run that] .
  have 1: "length (filter is_truncate evs) \<le> 1" using cnt by (elim conjE)
  have 2: "length (filter is_write evs) \<le> 1" using cnt by (elim conjE)
  have 3: "\<forall>p bs. FileWrite p bs \<in> set evs \<longrightarrow>
          p = argv w ! 1 \<and> r = Return () \<and> fs' = fs(p \<mapsto> bs)
        \<and> (\<exists>t. t \<noteq> [] \<and> replied w evs t \<and> write_bytes w p t = Encoded bs)"
  proof (intro allI impI)
    fix p bs assume a: "FileWrite p bs \<in> set evs"
    then have "FileWrite p bs \<in> set (filter is_write evs)" by simp
    then have wr: "filter is_write evs \<noteq> []" by (cases "filter is_write evs") simp_all
    with nt have "filter is_truncate evs \<noteq> []" by (cases "filter is_truncate evs = []") simp_all
    from tr [OF this] obtain t where t: "replied w evs t" "t \<noteq> []"
      and c: "case write_bytes w (argv w ! 1) t of
                    Encoded bs \<Rightarrow>
                      r = Return () \<and> fs' = fs(argv w ! 1 \<mapsto> bs)
                      \<and> filter is_write evs = [FileWrite (argv w ! 1) bs]
                  | WriteError e left \<Rightarrow>
                      r = Raise e \<and> fs' = fs(argv w ! 1 \<mapsto> left)
                      \<and> filter is_write evs = []"
      by (elim exE conjE)
    show "p = argv w ! 1 \<and> r = Return () \<and> fs' = fs(p \<mapsto> bs)
        \<and> (\<exists>t. t \<noteq> [] \<and> replied w evs t \<and> write_bytes w p t = Encoded bs)"
    proof (cases "write_bytes w (argv w ! 1) t")
      case (Encoded bs')
      with c have r: "r = Return ()" "fs' = fs(argv w ! 1 \<mapsto> bs')"
        "filter is_write evs = [FileWrite (argv w ! 1) bs']" by simp_all
      from \<open>FileWrite p bs \<in> set (filter is_write evs)\<close> r(3)
      have "p = argv w ! 1" "bs = bs'" by simp_all
      with r t Encoded show ?thesis by (intro conjI exI [of _ t]) simp_all
    next
      case (WriteError e left)
      with c wr show ?thesis by simp
    qed
  qed
  have 4: "\<forall>p. FileTruncate p \<in> set evs \<longrightarrow>
          p = argv w ! 1 \<and> writable w p
        \<and> (\<exists>t. t \<noteq> [] \<and> replied w evs t
               \<and> (case write_bytes w p t of
                     Encoded bs \<Rightarrow> r = Return () \<and> fs' = fs(p \<mapsto> bs)
                   | WriteError e left \<Rightarrow> r = Raise e \<and> fs' = fs(p \<mapsto> left)))"
  proof (intro allI impI)
    fix p assume a: "FileTruncate p \<in> set evs"
    then have m: "FileTruncate p \<in> set (filter is_truncate evs)" by simp
    then have "filter is_truncate evs \<noteq> []" by (cases "filter is_truncate evs") simp_all
    from tr [OF this] obtain t where wb: "writable w (argv w ! 1)"
      and t: "replied w evs t" "t \<noteq> []"
      and l: "filter is_truncate evs = [FileTruncate (argv w ! 1)]"
      and c: "case write_bytes w (argv w ! 1) t of
                    Encoded bs \<Rightarrow>
                      r = Return () \<and> fs' = fs(argv w ! 1 \<mapsto> bs)
                      \<and> filter is_write evs = [FileWrite (argv w ! 1) bs]
                  | WriteError e left \<Rightarrow>
                      r = Raise e \<and> fs' = fs(argv w ! 1 \<mapsto> left)
                      \<and> filter is_write evs = []"
      by (elim exE conjE)
    from m l have p: "p = argv w ! 1" by simp
    from c have "case write_bytes w p t of
                     Encoded bs \<Rightarrow> r = Return () \<and> fs' = fs(p \<mapsto> bs)
                   | WriteError e left \<Rightarrow> r = Raise e \<and> fs' = fs(p \<mapsto> left)"
      unfolding p by (cases "write_bytes w (argv w ! 1) t") simp_all
    with p wb t show "p = argv w ! 1 \<and> writable w p
        \<and> (\<exists>t. t \<noteq> [] \<and> replied w evs t
               \<and> (case write_bytes w p t of
                     Encoded bs \<Rightarrow> r = Return () \<and> fs' = fs(p \<mapsto> bs)
                   | WriteError e left \<Rightarrow> r = Raise e \<and> fs' = fs(p \<mapsto> left)))"
      by (intro conjI exI [of _ t]) simp_all
  qed
  have 5: "filter is_truncate evs = [] \<longrightarrow> fs' = fs \<and> filter is_write evs = []"
    using nt by (intro impI)
  have 6: "exit_status r \<noteq> 0 \<longrightarrow>
          filter is_write evs = [] \<and> (\<forall>q. q \<noteq> argv w ! 1 \<longrightarrow> fs' q = fs q)"
  proof
    assume bad: "exit_status r \<noteq> 0"
    show "filter is_write evs = [] \<and> (\<forall>q. q \<noteq> argv w ! 1 \<longrightarrow> fs' q = fs q)"
    proof (cases "filter is_truncate evs = []")
      case True
      from nt [OF this] show ?thesis by simp
    next
      case False
      from tr [OF this] obtain t where
        c: "case write_bytes w (argv w ! 1) t of
                    Encoded bs \<Rightarrow>
                      r = Return () \<and> fs' = fs(argv w ! 1 \<mapsto> bs)
                      \<and> filter is_write evs = [FileWrite (argv w ! 1) bs]
                  | WriteError e left \<Rightarrow>
                      r = Raise e \<and> fs' = fs(argv w ! 1 \<mapsto> left)
                      \<and> filter is_write evs = []"
        by (elim exE conjE)
      with bad show ?thesis by (cases "write_bytes w (argv w ! 1) t") simp_all
    qed
  qed
  have 7: "filter is_urlopen evs = [] \<longrightarrow> fs' = fs"
  proof
    assume no: "filter is_urlopen evs = []"
    have "filter is_truncate evs = []"
    proof (rule ccontr)
      assume "filter is_truncate evs \<noteq> []"
      from tr [OF this] obtain t where "replied w evs t" by (elim exE conjE)
      then obtain req where "UrlOpen req \<in> set evs" unfolding replied_def by (elim exE conjE)
      then have "UrlOpen req \<in> set (filter is_urlopen evs)" by simp
      with no show False by simp
    qed
    from nt [OF this] show "fs' = fs" by (elim conjE)
  qed
  have 8: "\<forall>req. UrlOpen req \<in> set evs \<and> (\<forall>body. urlopen w req \<noteq> Response 200 body) \<longrightarrow>
          exit_status r = 1 \<and> fs' = fs \<and> filter is_truncate evs = []"
  proof (intro allI impI, elim conjE)
    fix req assume "UrlOpen req \<in> set evs" "\<forall>body. urlopen w req \<noteq> Response 200 body"
    from main_not_200 [OF run this]
    show "exit_status r = 1 \<and> fs' = fs \<and> filter is_truncate evs = []" by simp
  qed
  have 9: "\<forall>req body doc v. UrlOpen req \<in> set evs
          \<and> urlopen w req = Response 200 (Some body)
          \<and> json_loads w body = Some doc \<and> extract_text doc = Inr v \<and> \<not> truthy v \<longrightarrow>
          r = Return () \<and> fs' = fs \<and> filter is_write evs = [] \<and> filter is_truncate evs = []"
  proof (intro allI impI, elim conjE)
    fix req body doc v
    assume "UrlOpen req \<in> set evs" "urlopen w req = Response 200 (Some body)"
      "json_loads w body = Some doc" "extract_text doc = Inr v" "\<not> truthy v"
    with main_reply [OF run, of req body doc v]
    show "r = Return () \<and> fs' = fs \<and> filter is_write evs = [] \<and> filter is_truncate evs = []"
      by simp
  qed
  from 1 2 3 4 5 6 7 8 9 show ?thesis
    unfolding run run_parts fst_conv snd_conv by (intro conjI)
qed

theorem C2_witness:
  "result_of (main base_world base_files) = Return ()
   \<and> files_of (main base_world base_files)
       = base_files(str ''COMMIT_EDITMSG'' \<mapsto> ''Add README'')
   \<and> exit_status (result_of (main rate_limited_world base_files)) = 1
   \<and> files_of (main rate_limited_world base_files) = base_files
   \<and> result_of (main empty_text_world base_files) = Return ()
   \<and> files_of (main empty_text_world base_files) = base_files
   \<and> filter is_write (events_of (main cafe_world base_files)) = []
   \<and> files_of (main no_key_world base_files) = base_files"
proof -
  have wr: "FileWrite (str ''COMMIT_EDITMSG'') ''Add README''
      \<in> set (events_of (main base_world base_files))"
    by (simp add: base_run events_of_def)
  have bad: "exit_status (result_of (main cafe_world base_files)) \<noteq> 0"
    by (simp add: cafe_run run_parts)
  have rl: "UrlOpen base_request \<in> set (events_of (main rate_limited_world base_files))
      \<and> (\<forall>body. urlopen rate_limited_world base_request \<noteq> Response 200 body)"
  proof
    show "UrlOpen base_request \<in> set (events_of (main rate_limited_world base_files))"
      by (rule rate_limited_events)
    show "\<forall>body. urlopen rate_limited_world base_request \<noteq> Response 200 body"
      by (simp add: rate_limited_world_def)
  qed
  have falsy: "\<not> truthy (JStr [])" by simp
  have nk: "filter is_urlopen (events_of (main no_key_world base_files)) = []"
    by (rule no_key_events)
  note a = C2_file_written_only_on_success [of base_world base_files,
      THEN conjunct2, THEN conjunct2, THEN conjunct1, rule_format, OF wr]
  note b = C2_file_written_only_on_success [of rate_limited_world base_files,
      THEN conjunct2, THEN conjunct2, THEN conjunct2, THEN conjunct2, THEN conjunct2,
      THEN conjunct2, THEN conjunct2, THEN conjunct1, rule_format, OF rl]
  note c = C2_file_written_only_on_success [of empty_text_world base_files,
      THEN conjunct2, THEN conjunct2, THEN conjunct2, THEN conjunct2, THEN conjunct2,
      THEN conjunct2, THEN conjunct2, THEN conjunct2, rule_format,
      OF conjI [OF empty_text_run conjI [OF empty_text_reply(1)
        conjI [OF empty_text_reply(2) conjI [OF extract_reply_with falsy]]]]]
  note d = C2_file_written_only_on_success [of cafe_world base_files,
      THEN conjunct2, THEN conjunct2, THEN conjunct2, THEN conjunct2, THEN conjunct2,
      THEN conjunct1, rule_format, OF bad]
  note e = C2_file_written_only_on_success [of no_key_world base_files,
      THEN conjunct2, THEN conjunct2, THEN conjunct2, THEN conjunct2, THEN conjunct2,
      THEN conjunct2, THEN conjunct1, rule_format, OF nk]
  from a have 1: "result_of (main base_world base_files) = Return ()"
    by (elim conjE)
  from a have 2: "files_of (main base_world base_files)
        = base_files(str ''COMMIT_EDITMSG'' \<mapsto> ''Add README'')"
    by (elim conjE)
  from b have 3: "exit_status (result_of (main rate_limited_world base_files)) = 1"
    by (elim conjE)
  from b have 4: "files_of (main rate_limited_world base_files) = base_files"
    by (elim conjE)
  from c have 5: "result_of (main empty_text_world base_files) = Return ()"
    by (elim conjE)
  from c have 6: "files_of (main empty_text_world base_files) = base_files"
    by (elim conjE)
  from d have 7: "filter is_write (events_of (main cafe_world base_files)) = []"
    by (elim conjE)
  from 1 2 3 4 5 6 7 e show ?thesis by (intro conjI)
qed

section \<open>The hook: a malformed reply\<close>

text \<open>
  Claim C9. When the API answers with status 200 and a body that \<open>json.loads\<close>
  rejects, or a document that does not have the path
  \<open>candidates[0].content.parts[0].text\<close>, \<open>generate_commit_message\<close> does not
  return: an exception leaves it after the request. In \<open>main\<close> nothing catches it, so
  the process ends with an uncaught exception and exit status 1, no file is written and
  every file keeps its content.
\<close>

theorem C9_malformed_reply_raises:
  assumes "urlopen w req = Response 200 (Some body)"
    and "json_loads w body = None
       \<or> (\<exists>doc. json_loads w body = Some doc \<and> text_path doc = None)"
  shows "(req = build_request w d b k h \<longrightarrow>
            (\<exists>e. generate_commit_message w d b k h fs = (Raise e, fs, [UrlOpen req])))
       \<and> (UrlOpen req \<in> set (events_of (main w fs)) \<longrightarrow>
            (\<exists>e. result_of (main w fs) = Raise e)
          \<and> exit_status (result_of (main w fs)) = 1
          \<and> files_of (main w fs) = fs
          \<and> filter is_write (events_of (main w fs)) = [])"
proof -
  from assms(2) have bad: "json_loads w body = None
       \<or> (\<exists>doc e. json_loads w body = Some doc \<and> extract_text doc = Inl e)"
  proof
    assume "json_loads w body = None"
    then show ?thesis by (rule disjI1)
  next
    assume "\<exists>doc. json_loads w body = Some doc \<and> text_path doc = None"
    then obtain doc where doc: "json_loads w body = Some doc" and "text_path doc = None"
      by (elim exE conjE)
    from no_text_path [OF this(2)] obtain e where "extract_text doc = Inl e"
      by (elim exE)
    with doc show ?thesis by (intro disjI2 exI conjI)
  qed
  have gen: "req = build_request w d b k h \<longrightarrow>
            (\<exists>e. generate_commit_message w d b k h fs = (Raise e, fs, [UrlOpen req]))"
  proof
    assume req: "req = build_request w d b k h"
    from generate_raise [OF assms(1) [unfolded req] bad, of fs] req
    show "\<exists>e. generate_commit_message w d b k h fs = (Raise e, fs, [UrlOpen req])"
      by simp
  qed
  have run: "UrlOpen req \<in> set (events_of (main w fs)) \<longrightarrow>
            (\<exists>e. result_of (main w fs) = Raise e)
          \<and> exit_status (result_of (main w fs)) = 1
          \<and> files_of (main w fs) = fs
          \<and> filter is_write (events_of (main w fs)) = []"
  proof
    assume ev0: "UrlOpen req \<in> set (events_of (main w fs))"
    obtain r fs' evs where m: "main w fs = (r, fs', evs)" by (rule main_run)
    from ev0 m have ev: "UrlOpen req \<in> set evs" by (simp add: events_of_def)
    have body: "Some body = None \<or> (\<exists>t. Some body = Some t \<and> (json_loads w t = None
           \<or> (\<exists>doc e. json_loads w t = Some doc \<and> extract_text doc = Inl e)))"
      using bad by simp
    from main_raise [OF m ev assms(1) body]
    obtain e where "r = Raise e" "fs' = fs" "filter is_write evs = []"
      by (elim exE conjE)
    then show "(\<exists>e. result_of (main w fs) = Raise e)
          \<and> exit_status (result_of (main w fs)) = 1
          \<and> files_of (main w fs) = fs
          \<and> filter is_write (events_of (main w fs)) = []"
      by (simp add: m run_parts)
  qed
  from gen run show ?thesis by (intro conjI)
qed

theorem C9_witness:
  "(\<exists>e. generate_commit_message not_json_world (str ''+README'') (str ''main'') (str ''k'') None base_files
          = (Raise e, base_files, [UrlOpen base_request]))
   \<and> exit_status (result_of (main not_json_world base_files)) = 1
   \<and> files_of (main not_json_world base_files) = base_files
   \<and> exit_status (result_of (main no_candidate_world base_files)) = 1
   \<and> files_of (main no_candidate_world base_files) = base_files"
proof -
  have bad1: "json_loads not_json_world (str ''<html>'') = None
       \<or> (\<exists>doc. json_loads not_json_world (str ''<html>'') = Some doc \<and> text_path doc = None)"
    by (rule disjI1) (rule not_json_reply(2))
  have bad2: "json_loads no_candidate_world (str ''reply'') = None
       \<or> (\<exists>doc. json_loads no_candidate_world (str ''reply'') = Some doc \<and> text_path doc = None)"
    by (intro disjI2 exI conjI) (rule not_json_reply(4), rule not_json_reply(5))
  note a = C9_malformed_reply_raises [OF not_json_reply(1) bad1, of _ _ _ _ base_files,
      THEN conjunct2, rule_format, OF not_json_run(1)]
  note b = C9_malformed_reply_raises [OF not_json_reply(3) bad2, of _ _ _ _ base_files,
      THEN conjunct2, rule_format, OF not_json_run(2)]
  have req: "base_request = build_request not_json_world (str ''+README'') (str ''main'') (str ''k'') None"
    by (simp add: base_request_def build_request_def not_json_world_def)
  note g = C9_malformed_reply_raises [OF not_json_reply(1) bad1,
      of "str ''+README''" "str ''main''" "str ''k''" None base_files,
      THEN conjunct1, rule_format, OF req]
  from a have 1: "exit_status (result_of (main not_json_world base_files)) = 1"
    by (elim conjE)
  from a have 2: "files_of (main not_json_world base_files) = base_files"
    by (elim conjE)
  from b have 3: "exit_status (result_of (main no_candidate_world base_files)) = 1"
    by (elim conjE)
  from b have 4: "files_of (main no_candidate_world base_files) = base_files"
    by (elim conjE)
  from g 1 2 3 4 show ?thesis by (intro conjI)
qed

end
